theory Spec2Isabelle
  imports Complex_Main "HOL-Library.Word" "HOL-Library.AList"
begin

section \<open>The plugin API of the Mumble client: data model\<close>

text \<open>
  The development follows \<^verbatim>\<open>src/mumble/API_v_1_x_x.cpp\<close>: the promise that carries a
  result from the main thread to the calling plugin thread, the curator of memory lent to
  plugins, the 39 entry points of \<^verbatim>\<open>MumbleAPI\<close> and the C wrapper around each of them.
  The fragment of \<^verbatim>\<open>Settings::load\<close> that reconciles the renamed noise-suppression
  setting is modelled at the end.

  Conventions. Identifiers of plugins, connections, users and channels are 32-bit values.
  A \<^verbatim>\<open>QString\<close> is represented by its UTF-8 encoding, so \<^verbatim>\<open>toUtf8\<close> and
  \<^verbatim>\<open>fromUtf8\<close> are the identity and \<^verbatim>\<open>isEmpty\<close> is \<open>s = []\<close>; a \<^verbatim>\<open>QByteArray\<close> is a
  list of bytes as well. A \<^verbatim>\<open>float\<close> or \<^verbatim>\<open>double\<close> is a real number: the model passes
  such values on and never computes with them, and rounding is not represented.
  A pointer is a natural number.
\<close>

type_synonym mumble_plugin_id_t = "32 word"
type_synonym mumble_connection_t = "32 word"
type_synonym mumble_userid_t = "32 word"
type_synonym mumble_channelid_t = "32 word"
type_synonym pointer = nat

datatype mumble_error_t =
    MUMBLE_STATUS_OK
  | MUMBLE_EC_GENERIC_ERROR
  | MUMBLE_EC_CONNECTION_NOT_FOUND
  | MUMBLE_EC_CONNECTION_UNSYNCHRONIZED
  | MUMBLE_EC_INVALID_PLUGIN_ID
  | MUMBLE_EC_NO_ACTIVE_CONNECTION
  | MUMBLE_EC_USER_NOT_FOUND
  | MUMBLE_EC_CHANNEL_NOT_FOUND
  | MUMBLE_EC_POINTER_NOT_FOUND
  | MUMBLE_EC_UNSYNCHRONIZED_BLOB
  | MUMBLE_EC_WRONG_SETTINGS_TYPE
  | MUMBLE_EC_UNKNOWN_SETTINGS_KEY
  | MUMBLE_EC_OPERATION_UNSUPPORTED_BY_SERVER
  | MUMBLE_EC_DATA_TOO_BIG
  | MUMBLE_EC_DATA_ID_TOO_LONG
  | MUMBLE_EC_INVALID_MUTE_TARGET
  | MUMBLE_EC_INTERNAL_ERROR
  | MUMBLE_EC_API_REQUEST_TIMEOUT
  | MUMBLE_EC_UNKNOWN_TRANSMISSION_MODE
  | MUMBLE_EC_AUDIO_NOT_AVAILABLE
  | MUMBLE_EC_INVALID_SAMPLE

text \<open>
  The named enumerators of \<^verbatim>\<open>mumble_settings_key_t\<close> and
  \<^verbatim>\<open>mumble_transmission_mode_t\<close> are those the switch statements of the source
  mention. Both are C enumerations, so a plugin can pass any other integer; the last
  constructor of each type stands for such a value, which no \<^verbatim>\<open>case\<close> label matches.
\<close>

datatype mumble_settings_key_t =
    MUMBLE_SK_INVALID
  | MUMBLE_SK_AUDIO_INPUT_VOICE_HOLD
  | MUMBLE_SK_AUDIO_INPUT_VAD_SILENCE_THRESHOLD
  | MUMBLE_SK_AUDIO_INPUT_VAD_SPEECH_THRESHOLD
  | MUMBLE_SK_AUDIO_OUTPUT_PA_MINIMUM_DISTANCE
  | MUMBLE_SK_AUDIO_OUTPUT_PA_MAXIMUM_DISTANCE
  | MUMBLE_SK_AUDIO_OUTPUT_PA_BLOOM
  | MUMBLE_SK_AUDIO_OUTPUT_PA_MINIMUM_VOLUME
  | MUMBLE_SK_unlisted int

datatype mumble_transmission_mode_t =
    MUMBLE_TM_CONTINOUS
  | MUMBLE_TM_VOICE_ACTIVATION
  | MUMBLE_TM_PUSH_TO_TALK
  | MUMBLE_TM_unlisted int

datatype AudioTransmit = Continuous | VAD | PushToTalk | AudioTransmit_unlisted int

subsection \<open>APIPromise\<close>

text \<open>
  \<^verbatim>\<open>m_promise\<close> is a \<^verbatim>\<open>std::promise< mumble_error_t >\<close>: its shared state is empty
  (\<open>None\<close>) until \<^verbatim>\<open>set_value\<close> stores a result. A second \<^verbatim>\<open>set_value\<close> throws
  \<^verbatim>\<open>std::future_error\<close> (promise already satisfied) and leaves the stored result alone;
  the field \<open>future_error\<close> records that this exception was raised. The mutex
  \<^verbatim>\<open>m_lock\<close> belongs to the interleaving model further down.
\<close>

record APIPromise =
  m_promise :: "mumble_error_t option"
  m_cancelled :: bool
  future_error :: bool

definition make_promise :: APIPromise where
  "make_promise = \<lparr>m_promise = None, m_cancelled = False, future_error = False\<rparr>"

definition set_value :: "mumble_error_t \<Rightarrow> APIPromise \<Rightarrow> APIPromise" where
  "set_value v p =
     (case m_promise p of
        None \<Rightarrow> p\<lparr>m_promise := Some v\<rparr>
      | Some _ \<Rightarrow> p\<lparr>future_error := True\<rparr>)"

definition isCancelled :: "APIPromise \<Rightarrow> bool" where
  "isCancelled p = m_cancelled p"

definition cancel :: "APIPromise \<Rightarrow> APIPromise" where
  "cancel p = p\<lparr>m_cancelled := True\<rparr>"

subsection \<open>Memory lent to plugins and the curator\<close>

text \<open>
  A block of the C heap is what \<^verbatim>\<open>malloc\<close> returned (\<open>Raw n\<close>: \<open>n\<close> bytes, none of them
  written), a character array (a byte is \<open>None\<close> while nothing has been written to it),
  or an array of 32-bit identifiers.
\<close>

datatype block = Raw nat | Chars "char option list" | Ids "32 word list"

datatype deleter_t = defaultDeleter

record Entry =
  m_deleter :: deleter_t
  m_pluginID :: mumble_plugin_id_t
  m_sourceFunctionName :: string

record MumbleAPICurator =
  m_entries :: "pointer \<rightharpoonup> Entry"

text \<open>
  \<^verbatim>\<open>m_entries.insert({ ptr, entry })\<close> on the standard map: a key that is present
  keeps its entry.
\<close>

definition entries_insert :: "pointer \<Rightarrow> Entry \<Rightarrow> MumbleAPICurator \<Rightarrow> MumbleAPICurator" where
  "entries_insert ptr e c =
     (case m_entries c ptr of
        None \<Rightarrow> c\<lparr>m_entries := (m_entries c)(ptr \<mapsto> e)\<rparr>
      | Some _ \<Rightarrow> c)"

definition entries_erase :: "pointer \<Rightarrow> MumbleAPICurator \<Rightarrow> MumbleAPICurator" where
  "entries_erase ptr c = c\<lparr>m_entries := (m_entries c)(ptr := None)\<rparr>"

subsection \<open>The collaborators behind \<^verbatim>\<open>Global::get()\<close>\<close>

record Plugin =
  getName :: string

record ServerHandler =
  getConnectionID :: mumble_connection_t
  qbaDigest :: string
  m_version :: "nat \<times> nat \<times> nat"

text \<open>
  \<open>cChannel\<close> is a pointer to a \<^verbatim>\<open>Channel\<close> object, or null. The model names that
  object by the identifier under which \<^verbatim>\<open>Channel::get\<close> finds it, which is also its
  \<^verbatim>\<open>iId\<close>.
\<close>

record ClientUser =
  user_uiSession :: mumble_userid_t
  qsName :: string
  qsHash :: string
  qsComment :: string
  qbaCommentHash :: string
  bLocalMute :: bool
  cChannel :: "mumble_channelid_t option"

record Channel =
  iId :: mumble_channelid_t
  channel_qsName :: string
  qsDesc :: string
  qbaDescHash :: string
  qlUsers :: "mumble_userid_t list"

record Settings =
  atTransmit :: AudioTransmit
  bMute :: bool
  bDeaf :: bool
  iVoiceHold :: int
  fVADmin :: real
  fVADmax :: real
  fAudioMinDistance :: real
  fAudioMaxDistance :: real
  fAudioBloom :: real
  fAudioMaxDistVolume :: real

record MainWindow =
  pmModel :: bool

text \<open>
  \<^verbatim>\<open>AudioOutput::playSample\<close> is not part of these sources; \<open>ao_playSample path volume\<close>
  tells whether it reports success for the sample.
\<close>

record AudioOutput =
  ao_playSample :: "string \<Rightarrow> real \<Rightarrow> bool"

record PluginDataTransmission =
  sendersession :: mumble_userid_t
  receiversessions :: "mumble_userid_t list"
  pdt_data :: string
  dataid :: string

text \<open>
  Calls into collaborators whose code is elsewhere (the main window, the server handler,
  the user model, the log, the audio output) are recorded in the order in which they are
  issued. For \<open>LogOrDefer\<close> the event keeps the plugin's name and the message; the text
  handed to the log is built from them with \<^verbatim>\<open>"<b>%1:</b> %2"\<close>.
\<close>

datatype event =
    SetTransmissionMode AudioTransmit
  | JoinChannel mumble_userid_t mumble_channelid_t "string list"
  | SetLocalMute mumble_userid_t bool
  | SetAudioMute bool
  | SetAudioDeaf bool
  | SetComment mumble_userid_t string
  | SendMessage PluginDataTransmission
  | LogOrDefer string string
  | PlaySample string real bool

text \<open>
  The state the entry points run against. \<open>c_qmUsers\<close> and \<open>c_qhChannels\<close> list the
  entries of the two containers in iteration order; \<^verbatim>\<open>ClientUser::get\<close> and
  \<^verbatim>\<open>Channel::get\<close> look an identifier up in them. \<open>gs\<close> is the settings object \<^verbatim>\<open>Global::get().s\<close> and \<open>db_blob\<close> is
  \<^verbatim>\<open>Global::get().db->blob\<close>. \<^verbatim>\<open>malloc\<close> is assumed to succeed: its \<open>n\<close>-th call
  returns \<open>malloc_result n\<close>, whatever that address is. \<open>MAX_DATA_LENGTH\<close> and
  \<open>MAX_DATA_ID_LENGTH\<close> are the two constants of
  \<^verbatim>\<open>Mumble::Plugins::PluginMessage\<close>, whose header is not part of these sources.
\<close>

record Global =
  pluginManager :: "mumble_plugin_id_t \<rightharpoonup> Plugin"
  sh :: "ServerHandler option"
  uiSession :: mumble_userid_t
  gs :: Settings
  mw :: "MainWindow option"
  db_blob :: "string \<Rightarrow> string"
  ao :: "AudioOutput option"
  c_qmUsers :: "(mumble_userid_t \<times> ClientUser) list"
  c_qhChannels :: "(mumble_channelid_t \<times> Channel) list"
  overwriteMicrophoneActivation :: bool
  m_curator :: MumbleAPICurator
  heap :: "pointer \<rightharpoonup> block"
  malloc_result :: "nat \<Rightarrow> pointer"
  malloc_calls :: nat
  MAX_DATA_LENGTH :: nat
  MAX_DATA_ID_LENGTH :: nat
  events :: "event list"

text \<open>
  Modelled from the spec: \<^verbatim>\<open>PluginManager\<close> is not part of these sources. It is the plugin
  registry, which answers existence and lookup by id; a plugin is loaded when the registry
  has an entry for its id.
\<close>

definition pluginExists :: "Global \<Rightarrow> mumble_plugin_id_t \<Rightarrow> bool" where
  "pluginExists g pid = (pluginManager g pid \<noteq> None)"

definition getPlugin :: "Global \<Rightarrow> mumble_plugin_id_t \<Rightarrow> Plugin option" where
  "getPlugin g pid = pluginManager g pid"

text \<open>
  Modelled from the spec: \<^verbatim>\<open>ClientUser::get\<close> and \<^verbatim>\<open>Channel::get\<close> are not part of
  these sources. They are the lookup by id in the user directory and in the channel
  directory, the two containers the entry points also enumerate.
\<close>

definition ClientUser_get :: "Global \<Rightarrow> mumble_userid_t \<Rightarrow> ClientUser option" where
  "ClientUser_get g userID = map_of (c_qmUsers g) userID"

definition Channel_get :: "Global \<Rightarrow> mumble_channelid_t \<Rightarrow> Channel option" where
  "Channel_get g channelID = map_of (c_qhChannels g) channelID"

definition emit :: "event \<Rightarrow> Global \<Rightarrow> Global" where
  "emit e g = g\<lparr>events := events g @ [e]\<rparr>"

definition malloc :: "nat \<Rightarrow> Global \<Rightarrow> pointer \<times> Global" where
  "malloc n g =
     (let ptr = malloc_result g (malloc_calls g)
      in (ptr, g\<lparr>heap := (heap g)(ptr \<mapsto> Raw n), malloc_calls := Suc (malloc_calls g)\<rparr>))"

text \<open>\<^verbatim>\<open>free\<close>, which is all \<^verbatim>\<open>defaultDeleter\<close> does.\<close>

definition free :: "pointer \<Rightarrow> Global \<Rightarrow> Global" where
  "free ptr g = g\<lparr>heap := (heap g)(ptr := None)\<rparr>"

fun call_deleter :: "deleter_t \<Rightarrow> pointer \<Rightarrow> Global \<Rightarrow> Global" where
  "call_deleter defaultDeleter ptr g = free ptr g"

text \<open>
  \<^verbatim>\<open>std::strcpy(dst, src.data())\<close>: the bytes of \<open>src\<close> up to its first NUL byte, then
  a NUL. The rest of the destination block keeps what it held.
\<close>

definition c_str :: "string \<Rightarrow> string" where
  "c_str src = takeWhile (\<lambda>c. c \<noteq> CHR 0x00) src @ [CHR 0x00]"

definition block_bytes :: "block \<Rightarrow> char option list" where
  "block_bytes b = (case b of Raw n \<Rightarrow> replicate n None | Chars cs \<Rightarrow> cs | Ids _ \<Rightarrow> [])"

definition strcpy :: "pointer \<Rightarrow> string \<Rightarrow> Global \<Rightarrow> Global" where
  "strcpy dst src g =
     (case heap g dst of
        None \<Rightarrow> g
      | Some b \<Rightarrow>
          g\<lparr>heap := (heap g)(dst \<mapsto>
               Chars (map Some (c_str src) @ drop (length (c_str src)) (block_bytes b)))\<rparr>)"

text \<open>The loops that fill a freshly allocated array of identifiers, one element each.\<close>

definition store_ids :: "pointer \<Rightarrow> 32 word list \<Rightarrow> Global \<Rightarrow> Global" where
  "store_ids dst ids g = (if ids = [] then g else g\<lparr>heap := (heap g)(dst \<mapsto> Ids ids)\<rparr>)"


section \<open>The entry points of \<^verbatim>\<open>MumbleAPI\<close>\<close>

text \<open>
  Every entry point starts with the same two steps. When it is called from another thread
  than the main thread it queues a call of itself on the main thread and returns; the
  definitions below are the rest of the function, which therefore always runs on the main
  thread (the queueing is a step of the interleaving model further down). Then it takes
  the promise's lock and returns at once when the promise is cancelled.

  An entry point returns nothing to its C++ caller. What it does is to change the promise,
  to change the state of the client and to write through the out-parameters it was given;
  \<open>o_out\<close> lists those writes in order.
\<close>

datatype out_param =
    Out_connection mumble_connection_t
  | Out_bool bool
  | Out_userid mumble_userid_t
  | Out_channelid mumble_channelid_t
  | Out_pointer pointer
  | Out_size nat
  | Out_transmission_mode mumble_transmission_mode_t
  | Out_int64 int
  | Out_double real

record outcome =
  o_promise :: APIPromise
  o_host :: Global
  o_out :: "out_param list"

text \<open>The plain \<^verbatim>\<open>return;\<close> after the cancellation check.\<close>

definition RETURN :: "APIPromise \<Rightarrow> Global \<Rightarrow> outcome" where
  "RETURN promise g = \<lparr>o_promise = promise, o_host = g, o_out = []\<rparr>"

text \<open>
  The macro \<^verbatim>\<open>EXIT_WITH(code)\<close>. The promise is never null here, since the lock was
  taken through it.
\<close>

definition EXIT_WITH ::
  "mumble_error_t \<Rightarrow> APIPromise \<Rightarrow> Global \<Rightarrow> out_param list \<Rightarrow> outcome" where
  "EXIT_WITH code promise g out = \<lparr>o_promise = set_value code promise, o_host = g, o_out = out\<rparr>"

text \<open>\<^verbatim>\<open>VERIFY_CONNECTION\<close> lets the call go on when this holds.\<close>

definition connection_verified :: "Global \<Rightarrow> mumble_connection_t \<Rightarrow> bool" where
  "connection_verified g connection =
     (case sh g of None \<Rightarrow> False | Some h \<Rightarrow> getConnectionID h = connection)"

text \<open>
  The statements with which every string-returning entry point ends: allocate the length
  of the UTF-8 encoding plus one, copy, register the pointer with the curator, write the
  out-parameter, exit with \<^verbatim>\<open>MUMBLE_STATUS_OK\<close>.
\<close>

definition export_string ::
  "string \<Rightarrow> mumble_plugin_id_t \<Rightarrow> string \<Rightarrow> APIPromise \<Rightarrow> Global \<Rightarrow> outcome" where
  "export_string str callerID fn promise g =
     (let size = length str + 1;
          (nameArray, g1) = malloc (size * 1) g;
          g2 = strcpy nameArray str g1;
          g3 = g2\<lparr>m_curator := entries_insert nameArray
                 \<lparr>m_deleter = defaultDeleter, m_pluginID = callerID, m_sourceFunctionName = fn\<rparr>
                 (m_curator g2)\<rparr>
      in EXIT_WITH MUMBLE_STATUS_OK promise g3 [Out_pointer nameArray])"

text \<open>The same for an array of identifiers and its element count.\<close>

definition export_ids ::
  "32 word list \<Rightarrow> mumble_plugin_id_t \<Rightarrow> string \<Rightarrow> APIPromise \<Rightarrow> Global \<Rightarrow> outcome" where
  "export_ids ids callerID fn promise g =
     (let amount = length ids;
          (userIDs, g1) = malloc (4 * amount) g;
          g2 = store_ids userIDs ids g1;
          g3 = g2\<lparr>m_curator := entries_insert userIDs
                 \<lparr>m_deleter = defaultDeleter, m_pluginID = callerID, m_sourceFunctionName = fn\<rparr>
                 (m_curator g2)\<rparr>
      in EXIT_WITH MUMBLE_STATUS_OK promise g3 [Out_pointer userIDs, Out_size amount])"

definition freeMemory_v_1_0_x ::
  "mumble_plugin_id_t \<Rightarrow> pointer \<Rightarrow> APIPromise \<Rightarrow> Global \<Rightarrow> outcome" where
  "freeMemory_v_1_0_x callerID ptr promise g =
     (if isCancelled promise then RETURN promise g
      else case m_entries (m_curator g) ptr of
        Some entry \<Rightarrow>
          (let g1 = call_deleter (m_deleter entry) ptr g;
               g2 = g1\<lparr>m_curator := entries_erase ptr (m_curator g1)\<rparr>
           in EXIT_WITH MUMBLE_STATUS_OK promise g2 [])
      | None \<Rightarrow> EXIT_WITH MUMBLE_EC_POINTER_NOT_FOUND promise g [])"

definition getActiveServerConnection_v_1_0_x ::
  "mumble_plugin_id_t \<Rightarrow> APIPromise \<Rightarrow> Global \<Rightarrow> outcome" where
  "getActiveServerConnection_v_1_0_x callerID promise g =
     (if isCancelled promise then RETURN promise g
      else if \<not> pluginExists g callerID then EXIT_WITH MUMBLE_EC_INVALID_PLUGIN_ID promise g []
      else case sh g of
        Some h \<Rightarrow> EXIT_WITH MUMBLE_STATUS_OK promise g [Out_connection (getConnectionID h)]
      | None \<Rightarrow> EXIT_WITH MUMBLE_EC_NO_ACTIVE_CONNECTION promise g [])"

definition isConnectionSynchronized_v_1_0_x ::
  "mumble_plugin_id_t \<Rightarrow> mumble_connection_t \<Rightarrow> APIPromise \<Rightarrow> Global \<Rightarrow> outcome" where
  "isConnectionSynchronized_v_1_0_x callerID connection promise g =
     (if isCancelled promise then RETURN promise g
      else if \<not> pluginExists g callerID then EXIT_WITH MUMBLE_EC_INVALID_PLUGIN_ID promise g []
      else if \<not> connection_verified g connection
        then EXIT_WITH MUMBLE_EC_CONNECTION_NOT_FOUND promise g []
      else EXIT_WITH MUMBLE_STATUS_OK promise g [Out_bool (uiSession g \<noteq> 0)])"

definition getLocalUserID_v_1_0_x ::
  "mumble_plugin_id_t \<Rightarrow> mumble_connection_t \<Rightarrow> APIPromise \<Rightarrow> Global \<Rightarrow> outcome" where
  "getLocalUserID_v_1_0_x callerID connection promise g =
     (if isCancelled promise then RETURN promise g
      else if \<not> pluginExists g callerID then EXIT_WITH MUMBLE_EC_INVALID_PLUGIN_ID promise g []
      else if \<not> connection_verified g connection
        then EXIT_WITH MUMBLE_EC_CONNECTION_NOT_FOUND promise g []
      else if uiSession g = 0 then EXIT_WITH MUMBLE_EC_CONNECTION_UNSYNCHRONIZED promise g []
      else EXIT_WITH MUMBLE_STATUS_OK promise g [Out_userid (uiSession g)])"

definition getUserName_v_1_0_x ::
  "mumble_plugin_id_t \<Rightarrow> mumble_connection_t \<Rightarrow> mumble_userid_t \<Rightarrow> APIPromise \<Rightarrow> Global
   \<Rightarrow> outcome" where
  "getUserName_v_1_0_x callerID connection userID promise g =
     (if isCancelled promise then RETURN promise g
      else if \<not> pluginExists g callerID then EXIT_WITH MUMBLE_EC_INVALID_PLUGIN_ID promise g []
      else if \<not> connection_verified g connection
        then EXIT_WITH MUMBLE_EC_CONNECTION_NOT_FOUND promise g []
      else if uiSession g = 0 then EXIT_WITH MUMBLE_EC_CONNECTION_UNSYNCHRONIZED promise g []
      else case ClientUser_get g userID of
        Some user \<Rightarrow> export_string (qsName user) callerID ''getUserName'' promise g
      | None \<Rightarrow> EXIT_WITH MUMBLE_EC_USER_NOT_FOUND promise g [])"

definition getChannelName_v_1_0_x ::
  "mumble_plugin_id_t \<Rightarrow> mumble_connection_t \<Rightarrow> mumble_channelid_t \<Rightarrow> APIPromise \<Rightarrow> Global
   \<Rightarrow> outcome" where
  "getChannelName_v_1_0_x callerID connection channelID promise g =
     (if isCancelled promise then RETURN promise g
      else if \<not> pluginExists g callerID then EXIT_WITH MUMBLE_EC_INVALID_PLUGIN_ID promise g []
      else if \<not> connection_verified g connection
        then EXIT_WITH MUMBLE_EC_CONNECTION_NOT_FOUND promise g []
      else if uiSession g = 0 then EXIT_WITH MUMBLE_EC_CONNECTION_UNSYNCHRONIZED promise g []
      else case Channel_get g channelID of
        Some channel \<Rightarrow>
          export_string (channel_qsName channel) callerID ''getChannelName'' promise g
      | None \<Rightarrow> EXIT_WITH MUMBLE_EC_CHANNEL_NOT_FOUND promise g [])"

definition getAllUsers_v_1_0_x ::
  "mumble_plugin_id_t \<Rightarrow> mumble_connection_t \<Rightarrow> APIPromise \<Rightarrow> Global \<Rightarrow> outcome" where
  "getAllUsers_v_1_0_x callerID connection promise g =
     (if isCancelled promise then RETURN promise g
      else if \<not> pluginExists g callerID then EXIT_WITH MUMBLE_EC_INVALID_PLUGIN_ID promise g []
      else if \<not> connection_verified g connection
        then EXIT_WITH MUMBLE_EC_CONNECTION_NOT_FOUND promise g []
      else if uiSession g = 0 then EXIT_WITH MUMBLE_EC_CONNECTION_UNSYNCHRONIZED promise g []
      else export_ids (map fst (c_qmUsers g)) callerID ''getAllUsers'' promise g)"

definition getAllChannels_v_1_0_x ::
  "mumble_plugin_id_t \<Rightarrow> mumble_connection_t \<Rightarrow> APIPromise \<Rightarrow> Global \<Rightarrow> outcome" where
  "getAllChannels_v_1_0_x callerID connection promise g =
     (if isCancelled promise then RETURN promise g
      else if \<not> pluginExists g callerID then EXIT_WITH MUMBLE_EC_INVALID_PLUGIN_ID promise g []
      else if \<not> connection_verified g connection
        then EXIT_WITH MUMBLE_EC_CONNECTION_NOT_FOUND promise g []
      else if uiSession g = 0 then EXIT_WITH MUMBLE_EC_CONNECTION_UNSYNCHRONIZED promise g []
      else export_ids (map fst (c_qhChannels g)) callerID ''getAllChannels'' promise g)"

definition getChannelOfUser_v_1_0_x ::
  "mumble_plugin_id_t \<Rightarrow> mumble_connection_t \<Rightarrow> mumble_userid_t \<Rightarrow> APIPromise \<Rightarrow> Global
   \<Rightarrow> outcome" where
  "getChannelOfUser_v_1_0_x callerID connection userID promise g =
     (if isCancelled promise then RETURN promise g
      else if \<not> pluginExists g callerID then EXIT_WITH MUMBLE_EC_INVALID_PLUGIN_ID promise g []
      else if \<not> connection_verified g connection
        then EXIT_WITH MUMBLE_EC_CONNECTION_NOT_FOUND promise g []
      else if uiSession g = 0 then EXIT_WITH MUMBLE_EC_CONNECTION_UNSYNCHRONIZED promise g []
      else case ClientUser_get g userID of
        None \<Rightarrow> EXIT_WITH MUMBLE_EC_USER_NOT_FOUND promise g []
      | Some user \<Rightarrow>
          (case cChannel user of
             Some c \<Rightarrow> EXIT_WITH MUMBLE_STATUS_OK promise g [Out_channelid c]
           | None \<Rightarrow> EXIT_WITH MUMBLE_EC_GENERIC_ERROR promise g []))"

definition getUsersInChannel_v_1_0_x ::
  "mumble_plugin_id_t \<Rightarrow> mumble_connection_t \<Rightarrow> mumble_channelid_t \<Rightarrow> APIPromise \<Rightarrow> Global
   \<Rightarrow> outcome" where
  "getUsersInChannel_v_1_0_x callerID connection channelID promise g =
     (if isCancelled promise then RETURN promise g
      else if \<not> pluginExists g callerID then EXIT_WITH MUMBLE_EC_INVALID_PLUGIN_ID promise g []
      else if \<not> connection_verified g connection
        then EXIT_WITH MUMBLE_EC_CONNECTION_NOT_FOUND promise g []
      else if uiSession g = 0 then EXIT_WITH MUMBLE_EC_CONNECTION_UNSYNCHRONIZED promise g []
      else case Channel_get g channelID of
        None \<Rightarrow> EXIT_WITH MUMBLE_EC_CHANNEL_NOT_FOUND promise g []
      | Some channel \<Rightarrow> export_ids (qlUsers channel) callerID ''getUsersInChannel'' promise g)"

definition getLocalUserTransmissionMode_v_1_0_x ::
  "mumble_plugin_id_t \<Rightarrow> APIPromise \<Rightarrow> Global \<Rightarrow> outcome" where
  "getLocalUserTransmissionMode_v_1_0_x callerID promise g =
     (if isCancelled promise then RETURN promise g
      else if \<not> pluginExists g callerID then EXIT_WITH MUMBLE_EC_INVALID_PLUGIN_ID promise g []
      else case atTransmit (gs g) of
        Continuous \<Rightarrow>
          EXIT_WITH MUMBLE_STATUS_OK promise g [Out_transmission_mode MUMBLE_TM_CONTINOUS]
      | VAD \<Rightarrow>
          EXIT_WITH MUMBLE_STATUS_OK promise g [Out_transmission_mode MUMBLE_TM_VOICE_ACTIVATION]
      | PushToTalk \<Rightarrow>
          EXIT_WITH MUMBLE_STATUS_OK promise g [Out_transmission_mode MUMBLE_TM_PUSH_TO_TALK]
      | AudioTransmit_unlisted _ \<Rightarrow> EXIT_WITH MUMBLE_EC_GENERIC_ERROR promise g [])"

definition isUserLocallyMuted_v_1_0_x ::
  "mumble_plugin_id_t \<Rightarrow> mumble_connection_t \<Rightarrow> mumble_userid_t \<Rightarrow> APIPromise \<Rightarrow> Global
   \<Rightarrow> outcome" where
  "isUserLocallyMuted_v_1_0_x callerID connection userID promise g =
     (if isCancelled promise then RETURN promise g
      else if \<not> pluginExists g callerID then EXIT_WITH MUMBLE_EC_INVALID_PLUGIN_ID promise g []
      else if \<not> connection_verified g connection
        then EXIT_WITH MUMBLE_EC_CONNECTION_NOT_FOUND promise g []
      else if uiSession g = 0 then EXIT_WITH MUMBLE_EC_CONNECTION_UNSYNCHRONIZED promise g []
      else case ClientUser_get g userID of
        None \<Rightarrow> EXIT_WITH MUMBLE_EC_USER_NOT_FOUND promise g []
      | Some user \<Rightarrow> EXIT_WITH MUMBLE_STATUS_OK promise g [Out_bool (bLocalMute user)])"

definition isLocalUserMuted_v_1_0_x ::
  "mumble_plugin_id_t \<Rightarrow> APIPromise \<Rightarrow> Global \<Rightarrow> outcome" where
  "isLocalUserMuted_v_1_0_x callerID promise g =
     (if isCancelled promise then RETURN promise g
      else if \<not> pluginExists g callerID then EXIT_WITH MUMBLE_EC_INVALID_PLUGIN_ID promise g []
      else EXIT_WITH MUMBLE_STATUS_OK promise g [Out_bool (bMute (gs g))])"

definition isLocalUserDeafened_v_1_0_x ::
  "mumble_plugin_id_t \<Rightarrow> APIPromise \<Rightarrow> Global \<Rightarrow> outcome" where
  "isLocalUserDeafened_v_1_0_x callerID promise g =
     (if isCancelled promise then RETURN promise g
      else if \<not> pluginExists g callerID then EXIT_WITH MUMBLE_EC_INVALID_PLUGIN_ID promise g []
      else EXIT_WITH MUMBLE_STATUS_OK promise g [Out_bool (bDeaf (gs g))])"


definition getUserHash_v_1_0_x ::
  "mumble_plugin_id_t \<Rightarrow> mumble_connection_t \<Rightarrow> mumble_userid_t \<Rightarrow> APIPromise \<Rightarrow> Global
   \<Rightarrow> outcome" where
  "getUserHash_v_1_0_x callerID connection userID promise g =
     (if isCancelled promise then RETURN promise g
      else if \<not> pluginExists g callerID then EXIT_WITH MUMBLE_EC_INVALID_PLUGIN_ID promise g []
      else if \<not> connection_verified g connection
        then EXIT_WITH MUMBLE_EC_CONNECTION_NOT_FOUND promise g []
      else if uiSession g = 0 then EXIT_WITH MUMBLE_EC_CONNECTION_UNSYNCHRONIZED promise g []
      else case ClientUser_get g userID of
        None \<Rightarrow> EXIT_WITH MUMBLE_EC_USER_NOT_FOUND promise g []
      | Some user \<Rightarrow> export_string (qsHash user) callerID ''getUserHash'' promise g)"

text \<open>\<^verbatim>\<open>QByteArray::toHex\<close>: two lower-case hexadecimal digits for each byte.\<close>

definition hex_digit :: "nat \<Rightarrow> char" where
  "hex_digit n = ''0123456789abcdef'' ! (n mod 16)"

definition toHex :: "string \<Rightarrow> string" where
  "toHex bytes =
     concat (map (\<lambda>c. [hex_digit (of_char c div 16), hex_digit (of_char c mod 16)]) bytes)"

text \<open>
  Here \<^verbatim>\<open>VERIFY_CONNECTION\<close> is written out, because the body reads
  \<^verbatim>\<open>Global::get().sh->qbaDigest\<close> afterwards.
\<close>

definition getServerHash_v_1_0_x ::
  "mumble_plugin_id_t \<Rightarrow> mumble_connection_t \<Rightarrow> APIPromise \<Rightarrow> Global \<Rightarrow> outcome" where
  "getServerHash_v_1_0_x callerID connection promise g =
     (if isCancelled promise then RETURN promise g
      else if \<not> pluginExists g callerID then EXIT_WITH MUMBLE_EC_INVALID_PLUGIN_ID promise g []
      else case sh g of
        None \<Rightarrow> EXIT_WITH MUMBLE_EC_CONNECTION_NOT_FOUND promise g []
      | Some h \<Rightarrow>
          if getConnectionID h \<noteq> connection
            then EXIT_WITH MUMBLE_EC_CONNECTION_NOT_FOUND promise g []
          else if uiSession g = 0
            then EXIT_WITH MUMBLE_EC_CONNECTION_UNSYNCHRONIZED promise g []
          else export_string (toHex (qbaDigest h)) callerID ''getServerHash'' promise g)"

text \<open>
  The first \<^verbatim>\<open>switch\<close> of \<^verbatim>\<open>requestLocalUserTransmissionMode\<close>: \<open>Some mode\<close> when
  \<^verbatim>\<open>identifiedTransmissionMode\<close> ends up true.
\<close>

definition identify_transmission_mode :: "mumble_transmission_mode_t \<Rightarrow> AudioTransmit option" where
  "identify_transmission_mode transmissionMode =
     (case transmissionMode of
        MUMBLE_TM_CONTINOUS \<Rightarrow> Some Continuous
      | MUMBLE_TM_VOICE_ACTIVATION \<Rightarrow> Some VAD
      | MUMBLE_TM_PUSH_TO_TALK \<Rightarrow> Some PushToTalk
      | MUMBLE_TM_unlisted _ \<Rightarrow> None)"

definition requestLocalUserTransmissionMode_v_1_0_x ::
  "mumble_plugin_id_t \<Rightarrow> mumble_transmission_mode_t \<Rightarrow> APIPromise \<Rightarrow> Global \<Rightarrow> outcome" where
  "requestLocalUserTransmissionMode_v_1_0_x callerID transmissionMode promise g =
     (if isCancelled promise then RETURN promise g
      else if \<not> pluginExists g callerID then EXIT_WITH MUMBLE_EC_INVALID_PLUGIN_ID promise g []
      else case identify_transmission_mode transmissionMode of
        Some mode \<Rightarrow>
          (case mw g of
             None \<Rightarrow> EXIT_WITH MUMBLE_EC_INTERNAL_ERROR promise g []
           | Some _ \<Rightarrow> EXIT_WITH MUMBLE_STATUS_OK promise (emit (SetTransmissionMode mode) g) [])
      | None \<Rightarrow> EXIT_WITH MUMBLE_EC_UNKNOWN_TRANSMISSION_MODE promise g [])"

text \<open>
  \<^verbatim>\<open>getUserComment\<close> and \<^verbatim>\<open>getChannelDescription\<close> write to the object they looked
  up: an empty text whose hash is known is first replaced by the blob the database holds
  for that hash.
\<close>

definition getUserComment_v_1_0_x ::
  "mumble_plugin_id_t \<Rightarrow> mumble_connection_t \<Rightarrow> mumble_userid_t \<Rightarrow> APIPromise \<Rightarrow> Global
   \<Rightarrow> outcome" where
  "getUserComment_v_1_0_x callerID connection userID promise g =
     (if isCancelled promise then RETURN promise g
      else if \<not> pluginExists g callerID then EXIT_WITH MUMBLE_EC_INVALID_PLUGIN_ID promise g []
      else if \<not> connection_verified g connection
        then EXIT_WITH MUMBLE_EC_CONNECTION_NOT_FOUND promise g []
      else if uiSession g = 0 then EXIT_WITH MUMBLE_EC_CONNECTION_UNSYNCHRONIZED promise g []
      else case ClientUser_get g userID of
        None \<Rightarrow> EXIT_WITH MUMBLE_EC_USER_NOT_FOUND promise g []
      | Some user \<Rightarrow>
          if qsComment user = [] \<and> qbaCommentHash user \<noteq> [] then
            (let user1 = user\<lparr>qsComment := db_blob g (qbaCommentHash user)\<rparr>;
                 g1 = g\<lparr>c_qmUsers := AList.update userID user1 (c_qmUsers g)\<rparr>
             in if qsComment user1 = []
                  then EXIT_WITH MUMBLE_EC_UNSYNCHRONIZED_BLOB promise g1 []
                else export_string (qsComment user1) callerID ''getUserComment'' promise g1)
          else export_string (qsComment user) callerID ''getUserComment'' promise g)"

definition getChannelDescription_v_1_0_x ::
  "mumble_plugin_id_t \<Rightarrow> mumble_connection_t \<Rightarrow> mumble_channelid_t \<Rightarrow> APIPromise \<Rightarrow> Global
   \<Rightarrow> outcome" where
  "getChannelDescription_v_1_0_x callerID connection channelID promise g =
     (if isCancelled promise then RETURN promise g
      else if \<not> pluginExists g callerID then EXIT_WITH MUMBLE_EC_INVALID_PLUGIN_ID promise g []
      else if \<not> connection_verified g connection
        then EXIT_WITH MUMBLE_EC_CONNECTION_NOT_FOUND promise g []
      else if uiSession g = 0 then EXIT_WITH MUMBLE_EC_CONNECTION_UNSYNCHRONIZED promise g []
      else case Channel_get g channelID of
        None \<Rightarrow> EXIT_WITH MUMBLE_EC_CHANNEL_NOT_FOUND promise g []
      | Some channel \<Rightarrow>
          if qsDesc channel = [] \<and> qbaDescHash channel \<noteq> [] then
            (let channel1 = channel\<lparr>qsDesc := db_blob g (qbaDescHash channel)\<rparr>;
                 g1 = g\<lparr>c_qhChannels := AList.update channelID channel1 (c_qhChannels g)\<rparr>
             in if qsDesc channel1 = []
                  then EXIT_WITH MUMBLE_EC_UNSYNCHRONIZED_BLOB promise g1 []
                else export_string (qsDesc channel1) callerID ''getChannelDescription''
                       promise g1)
          else export_string (qsDesc channel) callerID ''getChannelDescription'' promise g)"

text \<open>The password is a C string or a null pointer.\<close>

definition requestUserMove_v_1_0_x ::
  "mumble_plugin_id_t \<Rightarrow> mumble_connection_t \<Rightarrow> mumble_userid_t \<Rightarrow> mumble_channelid_t
   \<Rightarrow> string option \<Rightarrow> APIPromise \<Rightarrow> Global \<Rightarrow> outcome" where
  "requestUserMove_v_1_0_x callerID connection userID channelID password promise g =
     (if isCancelled promise then RETURN promise g
      else if \<not> pluginExists g callerID then EXIT_WITH MUMBLE_EC_INVALID_PLUGIN_ID promise g []
      else if \<not> connection_verified g connection
        then EXIT_WITH MUMBLE_EC_CONNECTION_NOT_FOUND promise g []
      else if uiSession g = 0 then EXIT_WITH MUMBLE_EC_CONNECTION_UNSYNCHRONIZED promise g []
      else case ClientUser_get g userID of
        None \<Rightarrow> EXIT_WITH MUMBLE_EC_USER_NOT_FOUND promise g []
      | Some user \<Rightarrow>
          (case Channel_get g channelID of
             None \<Rightarrow> EXIT_WITH MUMBLE_EC_CHANNEL_NOT_FOUND promise g []
           | Some channel \<Rightarrow>
               if Some channelID \<noteq> cChannel user then
                 (let passwordList = (case password of None \<Rightarrow> [] | Some pw \<Rightarrow> [pw])
                  in EXIT_WITH MUMBLE_STATUS_OK promise
                       (emit (JoinChannel (user_uiSession user) (iId channel) passwordList) g) [])
               else EXIT_WITH MUMBLE_STATUS_OK promise g []))"

definition requestMicrophoneActivationOverwrite_v_1_0_x ::
  "mumble_plugin_id_t \<Rightarrow> bool \<Rightarrow> APIPromise \<Rightarrow> Global \<Rightarrow> outcome" where
  "requestMicrophoneActivationOverwrite_v_1_0_x callerID activate promise g =
     (if isCancelled promise then RETURN promise g
      else if \<not> pluginExists g callerID then EXIT_WITH MUMBLE_EC_INVALID_PLUGIN_ID promise g []
      else EXIT_WITH MUMBLE_STATUS_OK promise (g\<lparr>overwriteMicrophoneActivation := activate\<rparr>) [])"

definition requestLocalMute_v_1_0_x ::
  "mumble_plugin_id_t \<Rightarrow> mumble_connection_t \<Rightarrow> mumble_userid_t \<Rightarrow> bool \<Rightarrow> APIPromise
   \<Rightarrow> Global \<Rightarrow> outcome" where
  "requestLocalMute_v_1_0_x callerID connection userID muted promise g =
     (if isCancelled promise then RETURN promise g
      else if \<not> pluginExists g callerID then EXIT_WITH MUMBLE_EC_INVALID_PLUGIN_ID promise g []
      else if \<not> connection_verified g connection
        then EXIT_WITH MUMBLE_EC_CONNECTION_NOT_FOUND promise g []
      else if uiSession g = 0 then EXIT_WITH MUMBLE_EC_CONNECTION_UNSYNCHRONIZED promise g []
      else if userID = uiSession g then EXIT_WITH MUMBLE_EC_INVALID_MUTE_TARGET promise g []
      else case ClientUser_get g userID of
        None \<Rightarrow> EXIT_WITH MUMBLE_EC_USER_NOT_FOUND promise g []
      | Some user \<Rightarrow> EXIT_WITH MUMBLE_STATUS_OK promise (emit (SetLocalMute userID muted) g) [])"

definition requestLocalUserMute_v_1_0_x ::
  "mumble_plugin_id_t \<Rightarrow> bool \<Rightarrow> APIPromise \<Rightarrow> Global \<Rightarrow> outcome" where
  "requestLocalUserMute_v_1_0_x callerID muted promise g =
     (if isCancelled promise then RETURN promise g
      else if \<not> pluginExists g callerID then EXIT_WITH MUMBLE_EC_INVALID_PLUGIN_ID promise g []
      else case mw g of
        None \<Rightarrow> EXIT_WITH MUMBLE_EC_INTERNAL_ERROR promise g []
      | Some _ \<Rightarrow> EXIT_WITH MUMBLE_STATUS_OK promise (emit (SetAudioMute muted) g) [])"

definition requestLocalUserDeaf_v_1_0_x ::
  "mumble_plugin_id_t \<Rightarrow> bool \<Rightarrow> APIPromise \<Rightarrow> Global \<Rightarrow> outcome" where
  "requestLocalUserDeaf_v_1_0_x callerID deafened promise g =
     (if isCancelled promise then RETURN promise g
      else if \<not> pluginExists g callerID then EXIT_WITH MUMBLE_EC_INVALID_PLUGIN_ID promise g []
      else case mw g of
        None \<Rightarrow> EXIT_WITH MUMBLE_EC_INTERNAL_ERROR promise g []
      | Some _ \<Rightarrow> EXIT_WITH MUMBLE_STATUS_OK promise (emit (SetAudioDeaf deafened) g) [])"

definition requestSetLocalUserComment_v_1_0_x ::
  "mumble_plugin_id_t \<Rightarrow> mumble_connection_t \<Rightarrow> string \<Rightarrow> APIPromise \<Rightarrow> Global \<Rightarrow> outcome" where
  "requestSetLocalUserComment_v_1_0_x callerID connection comment promise g =
     (if isCancelled promise then RETURN promise g
      else if \<not> pluginExists g callerID then EXIT_WITH MUMBLE_EC_INVALID_PLUGIN_ID promise g []
      else if \<not> connection_verified g connection
        then EXIT_WITH MUMBLE_EC_CONNECTION_NOT_FOUND promise g []
      else if uiSession g = 0 then EXIT_WITH MUMBLE_EC_CONNECTION_UNSYNCHRONIZED promise g []
      else case ClientUser_get g (uiSession g) of
        None \<Rightarrow> EXIT_WITH MUMBLE_EC_USER_NOT_FOUND promise g []
      | Some localUser \<Rightarrow>
          if (case mw g of None \<Rightarrow> True | Some w \<Rightarrow> \<not> pmModel w)
            then EXIT_WITH MUMBLE_EC_INTERNAL_ERROR promise g []
          else EXIT_WITH MUMBLE_STATUS_OK promise (emit (SetComment (uiSession g) comment) g) [])"

text \<open>
  The \<^verbatim>\<open>while\<close> loops of \<^verbatim>\<open>findUserByName\<close> and \<^verbatim>\<open>findChannelByName\<close>: the key of
  the first entry, in iteration order, whose name is the one asked for.
\<close>

fun find_by_name :: "('a \<Rightarrow> string) \<Rightarrow> string \<Rightarrow> (32 word \<times> 'a) list \<Rightarrow> 32 word option" where
  "find_by_name name_of n [] = None"
| "find_by_name name_of n (kv # rest) =
     (if name_of (snd kv) = n then Some (fst kv) else find_by_name name_of n rest)"

definition findUserByName_v_1_0_x ::
  "mumble_plugin_id_t \<Rightarrow> mumble_connection_t \<Rightarrow> string \<Rightarrow> APIPromise \<Rightarrow> Global \<Rightarrow> outcome" where
  "findUserByName_v_1_0_x callerID connection userName promise g =
     (if isCancelled promise then RETURN promise g
      else if \<not> pluginExists g callerID then EXIT_WITH MUMBLE_EC_INVALID_PLUGIN_ID promise g []
      else if \<not> connection_verified g connection
        then EXIT_WITH MUMBLE_EC_CONNECTION_NOT_FOUND promise g []
      else if uiSession g = 0 then EXIT_WITH MUMBLE_EC_CONNECTION_UNSYNCHRONIZED promise g []
      else case find_by_name qsName userName (c_qmUsers g) of
        Some k \<Rightarrow> EXIT_WITH MUMBLE_STATUS_OK promise g [Out_userid k]
      | None \<Rightarrow> EXIT_WITH MUMBLE_EC_USER_NOT_FOUND promise g [])"

definition findChannelByName_v_1_0_x ::
  "mumble_plugin_id_t \<Rightarrow> mumble_connection_t \<Rightarrow> string \<Rightarrow> APIPromise \<Rightarrow> Global \<Rightarrow> outcome" where
  "findChannelByName_v_1_0_x callerID connection channelName promise g =
     (if isCancelled promise then RETURN promise g
      else if \<not> pluginExists g callerID then EXIT_WITH MUMBLE_EC_INVALID_PLUGIN_ID promise g []
      else if \<not> connection_verified g connection
        then EXIT_WITH MUMBLE_EC_CONNECTION_NOT_FOUND promise g []
      else if uiSession g = 0 then EXIT_WITH MUMBLE_EC_CONNECTION_UNSYNCHRONIZED promise g []
      else case find_by_name channel_qsName channelName (c_qhChannels g) of
        Some k \<Rightarrow> EXIT_WITH MUMBLE_STATUS_OK promise g [Out_channelid k]
      | None \<Rightarrow> EXIT_WITH MUMBLE_EC_CHANNEL_NOT_FOUND promise g [])"


subsection \<open>Typed access to settings\<close>

text \<open>
  A \<^verbatim>\<open>QVariant\<close> with the types that occur here. \<^verbatim>\<open>QVariant::fromValue\<close> of an
  \<^verbatim>\<open>int64_t\<close> gives a variant of a 64-bit integer type, which is not
  \<^verbatim>\<open>QMetaType::Int\<close>.
\<close>

datatype QVariant =
    QVariant_Invalid
  | QVariant_Bool bool
  | QVariant_Int int
  | QVariant_Int64 int
  | QVariant_Double real
  | QVariant_QString string

datatype QMetaType =
    QMetaType_UnknownType
  | QMetaType_Bool
  | QMetaType_Int
  | QMetaType_Int64
  | QMetaType_Double
  | QMetaType_QString

fun variant_type :: "QVariant \<Rightarrow> QMetaType" where
  "variant_type QVariant_Invalid = QMetaType_UnknownType"
| "variant_type (QVariant_Bool _) = QMetaType_Bool"
| "variant_type (QVariant_Int _) = QMetaType_Int"
| "variant_type (QVariant_Int64 _) = QMetaType_Int64"
| "variant_type (QVariant_Double _) = QMetaType_Double"
| "variant_type (QVariant_QString _) = QMetaType_QString"

definition isValid :: "QVariant \<Rightarrow> bool" where
  "isValid v = (variant_type v \<noteq> QMetaType_UnknownType)"

text \<open>
  The conversions are only ever applied to a variant of the type asked for; what Qt
  converts other variants to is not represented (the default value stands for it).
\<close>

definition toBool :: "QVariant \<Rightarrow> bool" where
  "toBool v = (case v of QVariant_Bool b \<Rightarrow> b | _ \<Rightarrow> False)"

definition toInt :: "QVariant \<Rightarrow> int" where
  "toInt v = (case v of QVariant_Int i \<Rightarrow> i | _ \<Rightarrow> 0)"

definition toDouble :: "QVariant \<Rightarrow> real" where
  "toDouble v = (case v of QVariant_Double d \<Rightarrow> d | _ \<Rightarrow> 0)"

definition toString :: "QVariant \<Rightarrow> string" where
  "toString v = (case v of QVariant_QString str \<Rightarrow> str | _ \<Rightarrow> [])"

definition getMumbleSettingHelper :: "mumble_settings_key_t \<Rightarrow> Global \<Rightarrow> QVariant" where
  "getMumbleSettingHelper key g =
     (case key of
        MUMBLE_SK_AUDIO_INPUT_VOICE_HOLD \<Rightarrow> QVariant_Int (iVoiceHold (gs g))
      | MUMBLE_SK_AUDIO_INPUT_VAD_SILENCE_THRESHOLD \<Rightarrow> QVariant_Double (fVADmin (gs g))
      | MUMBLE_SK_AUDIO_INPUT_VAD_SPEECH_THRESHOLD \<Rightarrow> QVariant_Double (fVADmax (gs g))
      | MUMBLE_SK_AUDIO_OUTPUT_PA_MINIMUM_DISTANCE \<Rightarrow> QVariant_Double (fAudioMinDistance (gs g))
      | MUMBLE_SK_AUDIO_OUTPUT_PA_MAXIMUM_DISTANCE \<Rightarrow> QVariant_Double (fAudioMaxDistance (gs g))
      | MUMBLE_SK_AUDIO_OUTPUT_PA_BLOOM \<Rightarrow> QVariant_Double (fAudioBloom (gs g))
      | MUMBLE_SK_AUDIO_OUTPUT_PA_MINIMUM_VOLUME \<Rightarrow> QVariant_Double (fAudioMaxDistVolume (gs g))
      | MUMBLE_SK_INVALID \<Rightarrow> QVariant_Invalid
      | MUMBLE_SK_unlisted _ \<Rightarrow> QVariant_Invalid)"

definition getMumbleSetting_bool_v_1_0_x ::
  "mumble_plugin_id_t \<Rightarrow> mumble_settings_key_t \<Rightarrow> APIPromise \<Rightarrow> Global \<Rightarrow> outcome" where
  "getMumbleSetting_bool_v_1_0_x callerID key promise g =
     (if isCancelled promise then RETURN promise g
      else if \<not> pluginExists g callerID then EXIT_WITH MUMBLE_EC_INVALID_PLUGIN_ID promise g []
      else (let val = getMumbleSettingHelper key g
            in if \<not> isValid val then EXIT_WITH MUMBLE_EC_UNKNOWN_SETTINGS_KEY promise g []
               else if variant_type val \<noteq> QMetaType_Bool
                 then EXIT_WITH MUMBLE_EC_WRONG_SETTINGS_TYPE promise g []
               else EXIT_WITH MUMBLE_STATUS_OK promise g [Out_bool (toBool val)]))"

definition getMumbleSetting_int_v_1_0_x ::
  "mumble_plugin_id_t \<Rightarrow> mumble_settings_key_t \<Rightarrow> APIPromise \<Rightarrow> Global \<Rightarrow> outcome" where
  "getMumbleSetting_int_v_1_0_x callerID key promise g =
     (if isCancelled promise then RETURN promise g
      else if \<not> pluginExists g callerID then EXIT_WITH MUMBLE_EC_INVALID_PLUGIN_ID promise g []
      else (let val = getMumbleSettingHelper key g
            in if \<not> isValid val then EXIT_WITH MUMBLE_EC_UNKNOWN_SETTINGS_KEY promise g []
               else if variant_type val \<noteq> QMetaType_Int
                 then EXIT_WITH MUMBLE_EC_WRONG_SETTINGS_TYPE promise g []
               else EXIT_WITH MUMBLE_STATUS_OK promise g [Out_int64 (toInt val)]))"

definition getMumbleSetting_double_v_1_0_x ::
  "mumble_plugin_id_t \<Rightarrow> mumble_settings_key_t \<Rightarrow> APIPromise \<Rightarrow> Global \<Rightarrow> outcome" where
  "getMumbleSetting_double_v_1_0_x callerID key promise g =
     (if isCancelled promise then RETURN promise g
      else if \<not> pluginExists g callerID then EXIT_WITH MUMBLE_EC_INVALID_PLUGIN_ID promise g []
      else (let val = getMumbleSettingHelper key g
            in if \<not> isValid val then EXIT_WITH MUMBLE_EC_UNKNOWN_SETTINGS_KEY promise g []
               else if variant_type val \<noteq> QMetaType_Double
                 then EXIT_WITH MUMBLE_EC_WRONG_SETTINGS_TYPE promise g []
               else EXIT_WITH MUMBLE_STATUS_OK promise g [Out_double (toDouble val)]))"

definition getMumbleSetting_string_v_1_0_x ::
  "mumble_plugin_id_t \<Rightarrow> mumble_settings_key_t \<Rightarrow> APIPromise \<Rightarrow> Global \<Rightarrow> outcome" where
  "getMumbleSetting_string_v_1_0_x callerID key promise g =
     (if isCancelled promise then RETURN promise g
      else if \<not> pluginExists g callerID then EXIT_WITH MUMBLE_EC_INVALID_PLUGIN_ID promise g []
      else (let val = getMumbleSettingHelper key g
            in if \<not> isValid val then EXIT_WITH MUMBLE_EC_UNKNOWN_SETTINGS_KEY promise g []
               else if variant_type val \<noteq> QMetaType_QString
                 then EXIT_WITH MUMBLE_EC_WRONG_SETTINGS_TYPE promise g []
               else export_string (toString val) callerID ''getMumbleSetting_string'' promise g))"

text \<open>\<^verbatim>\<open>setMumbleSettingHelper\<close> returns the status and changes the settings object.\<close>

definition setMumbleSettingHelper ::
  "mumble_settings_key_t \<Rightarrow> QVariant \<Rightarrow> Settings \<Rightarrow> mumble_error_t \<times> Settings" where
  "setMumbleSettingHelper key val st =
     (case key of
        MUMBLE_SK_AUDIO_INPUT_VOICE_HOLD \<Rightarrow>
          if variant_type val = QMetaType_Int
            then (MUMBLE_STATUS_OK, st\<lparr>iVoiceHold := toInt val\<rparr>)
          else (MUMBLE_EC_WRONG_SETTINGS_TYPE, st)
      | MUMBLE_SK_AUDIO_INPUT_VAD_SILENCE_THRESHOLD \<Rightarrow>
          if variant_type val = QMetaType_Double
            then (MUMBLE_STATUS_OK, st\<lparr>fVADmin := toDouble val\<rparr>)
          else (MUMBLE_EC_WRONG_SETTINGS_TYPE, st)
      | MUMBLE_SK_AUDIO_INPUT_VAD_SPEECH_THRESHOLD \<Rightarrow>
          if variant_type val = QMetaType_Double
            then (MUMBLE_STATUS_OK, st\<lparr>fVADmax := toDouble val\<rparr>)
          else (MUMBLE_EC_WRONG_SETTINGS_TYPE, st)
      | MUMBLE_SK_AUDIO_OUTPUT_PA_MINIMUM_DISTANCE \<Rightarrow>
          if variant_type val = QMetaType_Double
            then (MUMBLE_STATUS_OK, st\<lparr>fAudioMinDistance := toDouble val\<rparr>)
          else (MUMBLE_EC_WRONG_SETTINGS_TYPE, st)
      | MUMBLE_SK_AUDIO_OUTPUT_PA_MAXIMUM_DISTANCE \<Rightarrow>
          if variant_type val = QMetaType_Double
            then (MUMBLE_STATUS_OK, st\<lparr>fAudioMaxDistance := toDouble val\<rparr>)
          else (MUMBLE_EC_WRONG_SETTINGS_TYPE, st)
      | MUMBLE_SK_AUDIO_OUTPUT_PA_BLOOM \<Rightarrow>
          if variant_type val = QMetaType_Double
            then (MUMBLE_STATUS_OK, st\<lparr>fAudioBloom := toDouble val\<rparr>)
          else (MUMBLE_EC_WRONG_SETTINGS_TYPE, st)
      | MUMBLE_SK_AUDIO_OUTPUT_PA_MINIMUM_VOLUME \<Rightarrow>
          if variant_type val = QMetaType_Double
            then (MUMBLE_STATUS_OK, st\<lparr>fAudioMaxDistVolume := toDouble val\<rparr>)
          else (MUMBLE_EC_WRONG_SETTINGS_TYPE, st)
      | MUMBLE_SK_INVALID \<Rightarrow> (MUMBLE_EC_UNKNOWN_SETTINGS_KEY, st)
      | MUMBLE_SK_unlisted _ \<Rightarrow> (MUMBLE_EC_UNKNOWN_SETTINGS_KEY, st))"

definition setMumbleSetting_bool_v_1_0_x ::
  "mumble_plugin_id_t \<Rightarrow> mumble_settings_key_t \<Rightarrow> bool \<Rightarrow> APIPromise \<Rightarrow> Global \<Rightarrow> outcome" where
  "setMumbleSetting_bool_v_1_0_x callerID key val promise g =
     (if isCancelled promise then RETURN promise g
      else if \<not> pluginExists g callerID then EXIT_WITH MUMBLE_EC_INVALID_PLUGIN_ID promise g []
      else (let (exitCode, st) = setMumbleSettingHelper key (QVariant_Bool val) (gs g)
            in EXIT_WITH exitCode promise (g\<lparr>gs := st\<rparr>) []))"

definition setMumbleSetting_int_v_1_0_x ::
  "mumble_plugin_id_t \<Rightarrow> mumble_settings_key_t \<Rightarrow> int \<Rightarrow> APIPromise \<Rightarrow> Global \<Rightarrow> outcome" where
  "setMumbleSetting_int_v_1_0_x callerID key val promise g =
     (if isCancelled promise then RETURN promise g
      else if \<not> pluginExists g callerID then EXIT_WITH MUMBLE_EC_INVALID_PLUGIN_ID promise g []
      else (let (exitCode, st) = setMumbleSettingHelper key (QVariant_Int64 val) (gs g)
            in EXIT_WITH exitCode promise (g\<lparr>gs := st\<rparr>) []))"

definition setMumbleSetting_double_v_1_0_x ::
  "mumble_plugin_id_t \<Rightarrow> mumble_settings_key_t \<Rightarrow> real \<Rightarrow> APIPromise \<Rightarrow> Global \<Rightarrow> outcome" where
  "setMumbleSetting_double_v_1_0_x callerID key val promise g =
     (if isCancelled promise then RETURN promise g
      else if \<not> pluginExists g callerID then EXIT_WITH MUMBLE_EC_INVALID_PLUGIN_ID promise g []
      else (let (exitCode, st) = setMumbleSettingHelper key (QVariant_Double val) (gs g)
            in EXIT_WITH exitCode promise (g\<lparr>gs := st\<rparr>) []))"

definition setMumbleSetting_string_v_1_0_x ::
  "mumble_plugin_id_t \<Rightarrow> mumble_settings_key_t \<Rightarrow> string \<Rightarrow> APIPromise \<Rightarrow> Global \<Rightarrow> outcome" where
  "setMumbleSetting_string_v_1_0_x callerID key val promise g =
     (if isCancelled promise then RETURN promise g
      else if \<not> pluginExists g callerID then EXIT_WITH MUMBLE_EC_INVALID_PLUGIN_ID promise g []
      else (let (exitCode, st) = setMumbleSettingHelper key (QVariant_QString val) (gs g)
            in EXIT_WITH exitCode promise (g\<lparr>gs := st\<rparr>) []))"

subsection \<open>Plugin data, log and sample playback\<close>

text \<open>
  The \<^verbatim>\<open>for\<close> loop of \<^verbatim>\<open>sendData\<close> over the receivers: \<open>None\<close> as soon as one of
  them is not a known user.
\<close>

fun add_receiversessions ::
  "Global \<Rightarrow> mumble_userid_t list \<Rightarrow> mumble_userid_t list \<Rightarrow> mumble_userid_t list option" where
  "add_receiversessions g acc [] = Some acc"
| "add_receiversessions g acc (u # users) =
     (case ClientUser_get g u of
        Some _ \<Rightarrow> add_receiversessions g (acc @ [u]) users
      | None \<Rightarrow> None)"

text \<open>
  Modelled from the spec: \<^verbatim>\<open>Version\<close> is not part of these sources. The call is gated on
  the version of the server, \<^verbatim>\<open>m_version < Version::fromComponents(1, 4, 0)\<close>; versions
  are compared by major, then minor, then patch number.
\<close>

definition version_less :: "nat \<times> nat \<times> nat \<Rightarrow> nat \<times> nat \<times> nat \<Rightarrow> bool" where
  "version_less v w =
     (case (v, w) of ((a, b, c), (x, y, z)) \<Rightarrow>
        a < x \<or> (a = x \<and> (b < y \<or> (b = y \<and> c < z))))"

text \<open>
  \<open>users\<close> is the array of \<^verbatim>\<open>userCount\<close> receivers, \<open>data\<close> the \<^verbatim>\<open>dataLength\<close> bytes of
  the payload, \<open>dataID\<close> a C string.
\<close>

definition sendData_v_1_0_x ::
  "mumble_plugin_id_t \<Rightarrow> mumble_connection_t \<Rightarrow> mumble_userid_t list \<Rightarrow> string \<Rightarrow> string
   \<Rightarrow> APIPromise \<Rightarrow> Global \<Rightarrow> outcome" where
  "sendData_v_1_0_x callerID connection users data dataID promise g =
     (if isCancelled promise then RETURN promise g
      else if \<not> pluginExists g callerID then EXIT_WITH MUMBLE_EC_INVALID_PLUGIN_ID promise g []
      else if \<not> connection_verified g connection
        then EXIT_WITH MUMBLE_EC_CONNECTION_NOT_FOUND promise g []
      else if uiSession g = 0 then EXIT_WITH MUMBLE_EC_CONNECTION_UNSYNCHRONIZED promise g []
      else if length data > MAX_DATA_LENGTH g then EXIT_WITH MUMBLE_EC_DATA_TOO_BIG promise g []
      else if length dataID > MAX_DATA_ID_LENGTH g
        then EXIT_WITH MUMBLE_EC_DATA_ID_TOO_LONG promise g []
      else case add_receiversessions g [] users of
        None \<Rightarrow> EXIT_WITH MUMBLE_EC_USER_NOT_FOUND promise g []
      | Some receivers \<Rightarrow>
          (let mpdt = \<lparr>sendersession = uiSession g, receiversessions = receivers,
                       pdt_data = data, dataid = dataID\<rparr>
           in case sh g of
                Some h \<Rightarrow>
                  if version_less (m_version h) (1, 4, 0)
                    then EXIT_WITH MUMBLE_EC_OPERATION_UNSUPPORTED_BY_SERVER promise g []
                  else EXIT_WITH MUMBLE_STATUS_OK promise (emit (SendMessage mpdt) g) []
              | None \<Rightarrow> EXIT_WITH MUMBLE_EC_CONNECTION_NOT_FOUND promise g []))"

definition log_v_1_0_x ::
  "mumble_plugin_id_t \<Rightarrow> string \<Rightarrow> APIPromise \<Rightarrow> Global \<Rightarrow> outcome" where
  "log_v_1_0_x callerID message promise g =
     (if isCancelled promise then RETURN promise g
      else case getPlugin g callerID of
        None \<Rightarrow> EXIT_WITH MUMBLE_EC_INVALID_PLUGIN_ID promise g []
      | Some plugin \<Rightarrow>
          EXIT_WITH MUMBLE_STATUS_OK promise (emit (LogOrDefer (getName plugin) message) g) [])"

definition playSample_v_1_2_x ::
  "mumble_plugin_id_t \<Rightarrow> string \<Rightarrow> real \<Rightarrow> APIPromise \<Rightarrow> Global \<Rightarrow> outcome" where
  "playSample_v_1_2_x callerID samplePath volume promise g =
     (if isCancelled promise then RETURN promise g
      else if \<not> pluginExists g callerID then EXIT_WITH MUMBLE_EC_INVALID_PLUGIN_ID promise g []
      else case ao g of
        None \<Rightarrow> EXIT_WITH MUMBLE_EC_AUDIO_NOT_AVAILABLE promise g []
      | Some out \<Rightarrow>
          if ao_playSample out samplePath volume
            then EXIT_WITH MUMBLE_STATUS_OK promise
                   (emit (PlaySample samplePath volume False) g) []
          else EXIT_WITH MUMBLE_EC_INVALID_SAMPLE promise
                 (emit (PlaySample samplePath volume False) g) [])"

definition playSample_v_1_0_x ::
  "mumble_plugin_id_t \<Rightarrow> string \<Rightarrow> APIPromise \<Rightarrow> Global \<Rightarrow> outcome" where
  "playSample_v_1_0_x callerID samplePath promise g =
     playSample_v_1_2_x callerID samplePath 1.0 promise g"

subsection \<open>The table of entry points\<close>

text \<open>
  One constructor for each member function of \<^verbatim>\<open>MumbleAPI\<close> that the structs returned
  by \<^verbatim>\<open>getMumbleAPI_v_1_0_x\<close> and \<^verbatim>\<open>getMumbleAPI_v_1_2_x\<close> reach, with the arguments of
  the call. \<open>dispatch\<close> runs the member function on the main thread.
\<close>

datatype api_call =
    Call_freeMemory mumble_plugin_id_t pointer
  | Call_getActiveServerConnection mumble_plugin_id_t
  | Call_isConnectionSynchronized mumble_plugin_id_t mumble_connection_t
  | Call_getLocalUserID mumble_plugin_id_t mumble_connection_t
  | Call_getUserName mumble_plugin_id_t mumble_connection_t mumble_userid_t
  | Call_getChannelName mumble_plugin_id_t mumble_connection_t mumble_channelid_t
  | Call_getAllUsers mumble_plugin_id_t mumble_connection_t
  | Call_getAllChannels mumble_plugin_id_t mumble_connection_t
  | Call_getChannelOfUser mumble_plugin_id_t mumble_connection_t mumble_userid_t
  | Call_getUsersInChannel mumble_plugin_id_t mumble_connection_t mumble_channelid_t
  | Call_getLocalUserTransmissionMode mumble_plugin_id_t
  | Call_isUserLocallyMuted mumble_plugin_id_t mumble_connection_t mumble_userid_t
  | Call_isLocalUserMuted mumble_plugin_id_t
  | Call_isLocalUserDeafened mumble_plugin_id_t
  | Call_getUserHash mumble_plugin_id_t mumble_connection_t mumble_userid_t
  | Call_getServerHash mumble_plugin_id_t mumble_connection_t
  | Call_requestLocalUserTransmissionMode mumble_plugin_id_t mumble_transmission_mode_t
  | Call_getUserComment mumble_plugin_id_t mumble_connection_t mumble_userid_t
  | Call_getChannelDescription mumble_plugin_id_t mumble_connection_t mumble_channelid_t
  | Call_requestUserMove mumble_plugin_id_t mumble_connection_t mumble_userid_t
      mumble_channelid_t "string option"
  | Call_requestMicrophoneActivationOverwrite mumble_plugin_id_t bool
  | Call_requestLocalMute mumble_plugin_id_t mumble_connection_t mumble_userid_t bool
  | Call_requestLocalUserMute mumble_plugin_id_t bool
  | Call_requestLocalUserDeaf mumble_plugin_id_t bool
  | Call_requestSetLocalUserComment mumble_plugin_id_t mumble_connection_t string
  | Call_findUserByName mumble_plugin_id_t mumble_connection_t string
  | Call_findChannelByName mumble_plugin_id_t mumble_connection_t string
  | Call_getMumbleSetting_bool mumble_plugin_id_t mumble_settings_key_t
  | Call_getMumbleSetting_int mumble_plugin_id_t mumble_settings_key_t
  | Call_getMumbleSetting_double mumble_plugin_id_t mumble_settings_key_t
  | Call_getMumbleSetting_string mumble_plugin_id_t mumble_settings_key_t
  | Call_setMumbleSetting_bool mumble_plugin_id_t mumble_settings_key_t bool
  | Call_setMumbleSetting_int mumble_plugin_id_t mumble_settings_key_t int
  | Call_setMumbleSetting_double mumble_plugin_id_t mumble_settings_key_t real
  | Call_setMumbleSetting_string mumble_plugin_id_t mumble_settings_key_t string
  | Call_sendData mumble_plugin_id_t mumble_connection_t "mumble_userid_t list" string string
  | Call_log mumble_plugin_id_t string
  | Call_playSample_v_1_0_x mumble_plugin_id_t string
  | Call_playSample_v_1_2_x mumble_plugin_id_t string real

primrec dispatch :: "api_call \<Rightarrow> APIPromise \<Rightarrow> Global \<Rightarrow> outcome" where
  "dispatch (Call_freeMemory c ptr) = freeMemory_v_1_0_x c ptr"
| "dispatch (Call_getActiveServerConnection c) = getActiveServerConnection_v_1_0_x c"
| "dispatch (Call_isConnectionSynchronized c conn) = isConnectionSynchronized_v_1_0_x c conn"
| "dispatch (Call_getLocalUserID c conn) = getLocalUserID_v_1_0_x c conn"
| "dispatch (Call_getUserName c conn u) = getUserName_v_1_0_x c conn u"
| "dispatch (Call_getChannelName c conn ch) = getChannelName_v_1_0_x c conn ch"
| "dispatch (Call_getAllUsers c conn) = getAllUsers_v_1_0_x c conn"
| "dispatch (Call_getAllChannels c conn) = getAllChannels_v_1_0_x c conn"
| "dispatch (Call_getChannelOfUser c conn u) = getChannelOfUser_v_1_0_x c conn u"
| "dispatch (Call_getUsersInChannel c conn ch) = getUsersInChannel_v_1_0_x c conn ch"
| "dispatch (Call_getLocalUserTransmissionMode c) = getLocalUserTransmissionMode_v_1_0_x c"
| "dispatch (Call_isUserLocallyMuted c conn u) = isUserLocallyMuted_v_1_0_x c conn u"
| "dispatch (Call_isLocalUserMuted c) = isLocalUserMuted_v_1_0_x c"
| "dispatch (Call_isLocalUserDeafened c) = isLocalUserDeafened_v_1_0_x c"
| "dispatch (Call_getUserHash c conn u) = getUserHash_v_1_0_x c conn u"
| "dispatch (Call_getServerHash c conn) = getServerHash_v_1_0_x c conn"
| "dispatch (Call_requestLocalUserTransmissionMode c m) =
     requestLocalUserTransmissionMode_v_1_0_x c m"
| "dispatch (Call_getUserComment c conn u) = getUserComment_v_1_0_x c conn u"
| "dispatch (Call_getChannelDescription c conn ch) = getChannelDescription_v_1_0_x c conn ch"
| "dispatch (Call_requestUserMove c conn u ch pw) = requestUserMove_v_1_0_x c conn u ch pw"
| "dispatch (Call_requestMicrophoneActivationOverwrite c b) =
     requestMicrophoneActivationOverwrite_v_1_0_x c b"
| "dispatch (Call_requestLocalMute c conn u b) = requestLocalMute_v_1_0_x c conn u b"
| "dispatch (Call_requestLocalUserMute c b) = requestLocalUserMute_v_1_0_x c b"
| "dispatch (Call_requestLocalUserDeaf c b) = requestLocalUserDeaf_v_1_0_x c b"
| "dispatch (Call_requestSetLocalUserComment c conn str) =
     requestSetLocalUserComment_v_1_0_x c conn str"
| "dispatch (Call_findUserByName c conn str) = findUserByName_v_1_0_x c conn str"
| "dispatch (Call_findChannelByName c conn str) = findChannelByName_v_1_0_x c conn str"
| "dispatch (Call_getMumbleSetting_bool c k) = getMumbleSetting_bool_v_1_0_x c k"
| "dispatch (Call_getMumbleSetting_int c k) = getMumbleSetting_int_v_1_0_x c k"
| "dispatch (Call_getMumbleSetting_double c k) = getMumbleSetting_double_v_1_0_x c k"
| "dispatch (Call_getMumbleSetting_string c k) = getMumbleSetting_string_v_1_0_x c k"
| "dispatch (Call_setMumbleSetting_bool c k v) = setMumbleSetting_bool_v_1_0_x c k v"
| "dispatch (Call_setMumbleSetting_int c k v) = setMumbleSetting_int_v_1_0_x c k v"
| "dispatch (Call_setMumbleSetting_double c k v) = setMumbleSetting_double_v_1_0_x c k v"
| "dispatch (Call_setMumbleSetting_string c k v) = setMumbleSetting_string_v_1_0_x c k v"
| "dispatch (Call_sendData c conn us d i) = sendData_v_1_0_x c conn us d i"
| "dispatch (Call_log c str) = log_v_1_0_x c str"
| "dispatch (Call_playSample_v_1_0_x c str) = playSample_v_1_0_x c str"
| "dispatch (Call_playSample_v_1_2_x c str v) = playSample_v_1_2_x c str v"

text \<open>The first argument of every entry point.\<close>

primrec callerID_of :: "api_call \<Rightarrow> mumble_plugin_id_t" where
  "callerID_of (Call_freeMemory c _) = c"
| "callerID_of (Call_getActiveServerConnection c) = c"
| "callerID_of (Call_isConnectionSynchronized c _) = c"
| "callerID_of (Call_getLocalUserID c _) = c"
| "callerID_of (Call_getUserName c _ _) = c"
| "callerID_of (Call_getChannelName c _ _) = c"
| "callerID_of (Call_getAllUsers c _) = c"
| "callerID_of (Call_getAllChannels c _) = c"
| "callerID_of (Call_getChannelOfUser c _ _) = c"
| "callerID_of (Call_getUsersInChannel c _ _) = c"
| "callerID_of (Call_getLocalUserTransmissionMode c) = c"
| "callerID_of (Call_isUserLocallyMuted c _ _) = c"
| "callerID_of (Call_isLocalUserMuted c) = c"
| "callerID_of (Call_isLocalUserDeafened c) = c"
| "callerID_of (Call_getUserHash c _ _) = c"
| "callerID_of (Call_getServerHash c _) = c"
| "callerID_of (Call_requestLocalUserTransmissionMode c _) = c"
| "callerID_of (Call_getUserComment c _ _) = c"
| "callerID_of (Call_getChannelDescription c _ _) = c"
| "callerID_of (Call_requestUserMove c _ _ _ _) = c"
| "callerID_of (Call_requestMicrophoneActivationOverwrite c _) = c"
| "callerID_of (Call_requestLocalMute c _ _ _) = c"
| "callerID_of (Call_requestLocalUserMute c _) = c"
| "callerID_of (Call_requestLocalUserDeaf c _) = c"
| "callerID_of (Call_requestSetLocalUserComment c _ _) = c"
| "callerID_of (Call_findUserByName c _ _) = c"
| "callerID_of (Call_findChannelByName c _ _) = c"
| "callerID_of (Call_getMumbleSetting_bool c _) = c"
| "callerID_of (Call_getMumbleSetting_int c _) = c"
| "callerID_of (Call_getMumbleSetting_double c _) = c"
| "callerID_of (Call_getMumbleSetting_string c _) = c"
| "callerID_of (Call_setMumbleSetting_bool c _ _) = c"
| "callerID_of (Call_setMumbleSetting_int c _ _) = c"
| "callerID_of (Call_setMumbleSetting_double c _ _) = c"
| "callerID_of (Call_setMumbleSetting_string c _ _) = c"
| "callerID_of (Call_sendData c _ _ _ _) = c"
| "callerID_of (Call_log c _) = c"
| "callerID_of (Call_playSample_v_1_0_x c _) = c"
| "callerID_of (Call_playSample_v_1_2_x c _ _) = c"

definition is_freeMemory :: "api_call \<Rightarrow> bool" where
  "is_freeMemory call = (case call of Call_freeMemory _ _ \<Rightarrow> True | _ \<Rightarrow> False)"

text \<open>
  The entry points that only report on the state of the client: everything called
  \<^verbatim>\<open>get...\<close>, \<^verbatim>\<open>is...\<close> or \<^verbatim>\<open>find...\<close>.
\<close>

definition read_only :: "api_call \<Rightarrow> bool" where
  "read_only call =
     (case call of
        Call_getActiveServerConnection _ \<Rightarrow> True
      | Call_isConnectionSynchronized _ _ \<Rightarrow> True
      | Call_getLocalUserID _ _ \<Rightarrow> True
      | Call_getUserName _ _ _ \<Rightarrow> True
      | Call_getChannelName _ _ _ \<Rightarrow> True
      | Call_getAllUsers _ _ \<Rightarrow> True
      | Call_getAllChannels _ _ \<Rightarrow> True
      | Call_getChannelOfUser _ _ _ \<Rightarrow> True
      | Call_getUsersInChannel _ _ _ \<Rightarrow> True
      | Call_getLocalUserTransmissionMode _ \<Rightarrow> True
      | Call_isUserLocallyMuted _ _ _ \<Rightarrow> True
      | Call_isLocalUserMuted _ \<Rightarrow> True
      | Call_isLocalUserDeafened _ \<Rightarrow> True
      | Call_getUserHash _ _ _ \<Rightarrow> True
      | Call_getServerHash _ _ \<Rightarrow> True
      | Call_getUserComment _ _ _ \<Rightarrow> True
      | Call_getChannelDescription _ _ _ \<Rightarrow> True
      | Call_findUserByName _ _ _ \<Rightarrow> True
      | Call_findChannelByName _ _ _ \<Rightarrow> True
      | Call_getMumbleSetting_bool _ _ \<Rightarrow> True
      | Call_getMumbleSetting_int _ _ \<Rightarrow> True
      | Call_getMumbleSetting_double _ _ \<Rightarrow> True
      | Call_getMumbleSetting_string _ _ \<Rightarrow> True
      | _ \<Rightarrow> False)"

text \<open>
  Two states of the client have the same backing state when they agree on everything but
  the bookkeeping of the API itself: the curator, the C heap and its allocator, and the
  record of calls made so far.
\<close>

definition same_backing :: "Global \<Rightarrow> Global \<Rightarrow> bool" where
  "same_backing g g' =
     (pluginManager g = pluginManager g' \<and> sh g = sh g' \<and> uiSession g = uiSession g'
      \<and> gs g = gs g' \<and> mw g = mw g' \<and> db_blob g = db_blob g' \<and> ao g = ao g'
      \<and> c_qmUsers g = c_qmUsers g' \<and> c_qhChannels g = c_qhChannels g'
      \<and> overwriteMicrophoneActivation g = overwriteMicrophoneActivation g'
      \<and> MAX_DATA_LENGTH g = MAX_DATA_LENGTH g' \<and> MAX_DATA_ID_LENGTH g = MAX_DATA_ID_LENGTH g')"

text \<open>
  What the caller can read after a call: each scalar written to an out-parameter, and for
  each pointer written to an out-parameter the block it points to.
\<close>

definition output_of :: "outcome \<Rightarrow> (block option + out_param) list" where
  "output_of r =
     map (\<lambda>w. case w of Out_pointer a \<Rightarrow> Inl (heap (o_host r) a) | _ \<Rightarrow> Inr w) (o_out r)"

text \<open>
  The typed accessors of settings, each with the type it is declared for and the key it is
  called with.
\<close>

definition settings_accessor :: "api_call \<Rightarrow> (QMetaType \<times> mumble_settings_key_t) option" where
  "settings_accessor call =
     (case call of
        Call_getMumbleSetting_bool _ k \<Rightarrow> Some (QMetaType_Bool, k)
      | Call_getMumbleSetting_int _ k \<Rightarrow> Some (QMetaType_Int, k)
      | Call_getMumbleSetting_double _ k \<Rightarrow> Some (QMetaType_Double, k)
      | Call_getMumbleSetting_string _ k \<Rightarrow> Some (QMetaType_QString, k)
      | Call_setMumbleSetting_bool _ k _ \<Rightarrow> Some (QMetaType_Bool, k)
      | Call_setMumbleSetting_int _ k _ \<Rightarrow> Some (QMetaType_Int, k)
      | Call_setMumbleSetting_double _ k _ \<Rightarrow> Some (QMetaType_Double, k)
      | Call_setMumbleSetting_string _ k _ \<Rightarrow> Some (QMetaType_QString, k)
      | _ \<Rightarrow> None)"

section \<open>The C wrappers: a plugin thread, the main thread and the promise between them\<close>

text \<open>
  All 39 wrappers have the same body: make a promise, call the entry point, wait up to 800
  milliseconds for the future, on time-out cancel the promise, look at the future once
  more without waiting, store \<^verbatim>\<open>MUMBLE_EC_API_REQUEST_TIMEOUT\<close> if it is still not
  ready, return \<^verbatim>\<open>future.get()\<close>.

  The wrapper and the entry point run on two threads unless the plugin calls from the main
  thread. The model interleaves them: a system state holds a program counter for each, the
  promise, its mutex, the state of the client, the out-parameters and a clock in
  milliseconds. Each action is one step of one thread and is enabled only in the states in
  which the thread could take it; a schedule is a list of actions.
\<close>

text \<open>
  Modelled from the spec: \<^verbatim>\<open>API.h\<close>, which declares \<^verbatim>\<open>APIPromise\<close> and its mutex, is not
  part of these sources. The promise holds a single-assignment result, the cancelled flag
  and a mutex guarding the flag; \<^verbatim>\<open>lock\<close> returns a scoped guard, and \<^verbatim>\<open>isCancelled\<close>
  and \<^verbatim>\<open>cancel\<close> read and write the flag under the same mutex. The mutex is re-entrant
  for the thread that holds it, since the entry point calls \<^verbatim>\<open>isCancelled\<close> while it
  holds the guard; so the only thread that ever waits for the mutex is the wrapper in
  \<^verbatim>\<open>cancel\<close>.
\<close>

datatype wrapper_pc =
    W_call
  | W_in_call
  | W_wait_800
  | W_cancel
  | W_wait_0
  | W_set_timeout
  | W_get
  | W_returned mumble_error_t

datatype entry_pc = D_idle | D_queued | D_locked | D_body | D_exit | D_returned

record system =
  wpc :: wrapper_pc
  dpc :: entry_pc
  sys_promise :: APIPromise
  m_lock :: bool
  sys_host :: Global
  sys_out :: "out_param list"
  sys_now :: nat
  wait_started :: nat

definition initial :: "nat \<Rightarrow> Global \<Rightarrow> system" where
  "initial t g =
     \<lparr>wpc = W_call, dpc = D_idle, sys_promise = make_promise, m_lock = False, sys_host = g,
      sys_out = [], sys_now = t, wait_started = t\<rparr>"

datatype action =
    Tick nat
  | Invoke
  | Lock
  | Check_cancelled
  | Run_body
  | Unlock
  | Resume
  | Wait_for_800
  | Cancel
  | Wait_for_0
  | Set_timeout
  | Future_get

text \<open>
  \<open>step call main_thread a \<sigma>\<close> is the state after action \<open>a\<close>, or \<open>None\<close> when \<open>a\<close> is
  not enabled in \<open>\<sigma>\<close>. \<open>main_thread\<close> tells whether the plugin calls from the main thread.
  \<^item> \<open>Tick n\<close>: \<open>n\<close> milliseconds pass.
  \<^item> \<open>Invoke\<close>: the wrapper calls the entry point. On the main thread the entry point runs
    inside this call and the wrapper goes on when it has returned (\<open>Resume\<close>); otherwise
    the call is queued for the main thread and the wrapper starts to wait.
  \<^item> \<open>Lock\<close>, \<open>Check_cancelled\<close>, \<open>Run_body\<close>, \<open>Unlock\<close>: the entry point takes the mutex,
    tests \<^verbatim>\<open>isCancelled\<close>, runs the rest of its body and releases the mutex on return.
    \<open>Run_body\<close> applies \<open>dispatch\<close>, which reads the flag once more; the flag cannot have
    changed in between, because the mutex is held.
  \<^item> \<open>Wait_for_800\<close>: \<^verbatim>\<open>wait_for(800 ms)\<close> returns, either because the future is ready or
    because it is not and at least 800 ms have passed.
  \<^item> \<open>Cancel\<close>: \<^verbatim>\<open>cancel()\<close>, which needs the mutex.
  \<^item> \<open>Wait_for_0\<close>, \<open>Set_timeout\<close>, \<open>Future_get\<close>: the rest of the wrapper;
    \<^verbatim>\<open>future.get()\<close> returns once the future is ready.
\<close>

primrec step :: "api_call \<Rightarrow> bool \<Rightarrow> action \<Rightarrow> system \<Rightarrow> system option" where
  "step call main_thread (Tick n) \<sigma> = Some (\<sigma>\<lparr>sys_now := sys_now \<sigma> + n\<rparr>)"
| "step call main_thread Invoke \<sigma> =
     (if wpc \<sigma> = W_call then
        (if main_thread then Some (\<sigma>\<lparr>wpc := W_in_call, dpc := D_queued\<rparr>)
         else Some (\<sigma>\<lparr>wpc := W_wait_800, dpc := D_queued, wait_started := sys_now \<sigma>\<rparr>))
      else None)"
| "step call main_thread Lock \<sigma> =
     (if dpc \<sigma> = D_queued \<and> \<not> m_lock \<sigma> then Some (\<sigma>\<lparr>dpc := D_locked, m_lock := True\<rparr>)
      else None)"
| "step call main_thread Check_cancelled \<sigma> =
     (if dpc \<sigma> = D_locked then
        (if isCancelled (sys_promise \<sigma>) then Some (\<sigma>\<lparr>dpc := D_exit\<rparr>)
         else Some (\<sigma>\<lparr>dpc := D_body\<rparr>))
      else None)"
| "step call main_thread Run_body \<sigma> =
     (if dpc \<sigma> = D_body then
        (let r = dispatch call (sys_promise \<sigma>) (sys_host \<sigma>)
         in Some (\<sigma>\<lparr>dpc := D_exit, sys_promise := o_promise r, sys_host := o_host r,
                    sys_out := o_out r\<rparr>))
      else None)"
| "step call main_thread Unlock \<sigma> =
     (if dpc \<sigma> = D_exit then Some (\<sigma>\<lparr>dpc := D_returned, m_lock := False\<rparr>) else None)"
| "step call main_thread Resume \<sigma> =
     (if wpc \<sigma> = W_in_call \<and> dpc \<sigma> = D_returned
        then Some (\<sigma>\<lparr>wpc := W_wait_800, wait_started := sys_now \<sigma>\<rparr>)
      else None)"
| "step call main_thread Wait_for_800 \<sigma> =
     (if wpc \<sigma> = W_wait_800 then
        (if m_promise (sys_promise \<sigma>) \<noteq> None then Some (\<sigma>\<lparr>wpc := W_get\<rparr>)
         else if wait_started \<sigma> + 800 \<le> sys_now \<sigma> then Some (\<sigma>\<lparr>wpc := W_cancel\<rparr>)
         else None)
      else None)"
| "step call main_thread Cancel \<sigma> =
     (if wpc \<sigma> = W_cancel \<and> \<not> m_lock \<sigma>
        then Some (\<sigma>\<lparr>wpc := W_wait_0, sys_promise := cancel (sys_promise \<sigma>)\<rparr>)
      else None)"
| "step call main_thread Wait_for_0 \<sigma> =
     (if wpc \<sigma> = W_wait_0 then
        (if m_promise (sys_promise \<sigma>) \<noteq> None then Some (\<sigma>\<lparr>wpc := W_get\<rparr>)
         else Some (\<sigma>\<lparr>wpc := W_set_timeout\<rparr>))
      else None)"
| "step call main_thread Set_timeout \<sigma> =
     (if wpc \<sigma> = W_set_timeout
        then Some (\<sigma>\<lparr>wpc := W_get,
                     sys_promise := set_value MUMBLE_EC_API_REQUEST_TIMEOUT (sys_promise \<sigma>)\<rparr>)
      else None)"
| "step call main_thread Future_get \<sigma> =
     (if wpc \<sigma> = W_get then
        (case m_promise (sys_promise \<sigma>) of
           Some v \<Rightarrow> Some (\<sigma>\<lparr>wpc := W_returned v\<rparr>)
         | None \<Rightarrow> None)
      else None)"

text \<open>A schedule runs from a state as long as each action is enabled.\<close>

primrec exec :: "api_call \<Rightarrow> bool \<Rightarrow> action list \<Rightarrow> system \<Rightarrow> system option" where
  "exec call main_thread [] \<sigma> = Some \<sigma>"
| "exec call main_thread (a # as) \<sigma> =
     (case step call main_thread a \<sigma> of
        None \<Rightarrow> None
      | Some \<sigma>' \<Rightarrow> exec call main_thread as \<sigma>')"

section \<open>\<^verbatim>\<open>Settings::load\<close>: the renamed noise-suppression setting\<close>

text \<open>
  The store read by \<^verbatim>\<open>Settings::load\<close> maps a key to a variant.
  \<^verbatim>\<open>SAVELOAD(var, name)\<close> assigns to \<open>var\<close> the value stored under \<open>name\<close>, or \<open>var\<close> itself
  when nothing is stored, cast to the type of \<open>var\<close>. A variant that holds an
  \<^verbatim>\<open>int\<close> is cast to that \<^verbatim>\<open>int\<close>; what Qt converts any other variant to is the
  parameter \<open>convert\<close>. The macOS build (\<open>macos\<close>) keeps \<open>var\<close> when the stored value is the
  string \<^verbatim>\<open>@Variant(\<close>.
\<close>

type_synonym QSettings = "string \<rightharpoonup> QVariant"

definition qvariant_cast_int :: "(QVariant \<Rightarrow> int) \<Rightarrow> QVariant \<Rightarrow> int" where
  "qvariant_cast_int convert v = (case v of QVariant_Int i \<Rightarrow> i | _ \<Rightarrow> convert v)"

definition settings_value :: "QSettings \<Rightarrow> string \<Rightarrow> QVariant \<Rightarrow> QVariant" where
  "settings_value settings_ptr name dflt =
     (case settings_ptr name of Some v \<Rightarrow> v | None \<Rightarrow> dflt)"

definition SAVELOAD :: "bool \<Rightarrow> (QVariant \<Rightarrow> int) \<Rightarrow> QSettings \<Rightarrow> int \<Rightarrow> string \<Rightarrow> int" where
  "SAVELOAD macos convert settings_ptr var name =
     (if macos \<and> settings_ptr name = Some (QVariant_QString ''@Variant('') then var
      else qvariant_cast_int convert (settings_value settings_ptr name (QVariant_Int var)))"

text \<open>
  The four statements of \<^verbatim>\<open>Settings::load\<close> that set \<^verbatim>\<open>iSpeexNoiseCancelStrength\<close>;
  the argument is the value of that field when \<^verbatim>\<open>load\<close> is entered.
\<close>

definition load_iSpeexNoiseCancelStrength ::
  "bool \<Rightarrow> (QVariant \<Rightarrow> int) \<Rightarrow> QSettings \<Rightarrow> int \<Rightarrow> int" where
  "load_iSpeexNoiseCancelStrength macos convert settings_ptr iSpeexNoiseCancelStrength =
     (let oldNoiseSuppress = 0;
          oldNoiseSuppress = SAVELOAD macos convert settings_ptr oldNoiseSuppress
                               ''audio/noisesupress'';
          iSpeexNoiseCancelStrength = SAVELOAD macos convert settings_ptr
                               iSpeexNoiseCancelStrength ''audio/speexNoiseCancelStrength''
      in min oldNoiseSuppress iSpeexNoiseCancelStrength)"

section \<open>A state of the client to run the entry points on\<close>

text \<open>
  Plugin 3 is loaded, connection 1 is synchronised and the local user has session 7. User
  42 is Alice, whose comment is known by its hash only; the database has no blob for it.
\<close>

definition example_settings :: Settings where
  "example_settings =
     \<lparr>atTransmit = VAD, bMute = False, bDeaf = False, iVoiceHold = 20, fVADmin = 1 / 4,
      fVADmax = 3 / 4, fAudioMinDistance = 1, fAudioMaxDistance = 15, fAudioBloom = 1 / 2,
      fAudioMaxDistVolume = 0\<rparr>"

definition example_host :: Global where
  "example_host =
     \<lparr>pluginManager = [3 \<mapsto> \<lparr>getName = ''Link''\<rparr>],
      sh = Some \<lparr>getConnectionID = 1, qbaDigest = [CHR 0x1f, CHR 0xa0], m_version = (1, 5, 0)\<rparr>,
      uiSession = 7,
      gs = example_settings,
      mw = Some \<lparr>pmModel = True\<rparr>,
      db_blob = (\<lambda>h. []),
      ao = Some \<lparr>ao_playSample = (\<lambda>path volume. path = ''ding.ogg'')\<rparr>,
      c_qmUsers =
        [(7, \<lparr>user_uiSession = 7, qsName = ''Bob'', qsHash = ''0b'', qsComment = [],
              qbaCommentHash = [], bLocalMute = False, cChannel = Some 0\<rparr>),
         (42, \<lparr>user_uiSession = 42, qsName = ''Alice'', qsHash = ''a1'', qsComment = [],
               qbaCommentHash = ''c0ffee'', bLocalMute = False, cChannel = Some 0\<rparr>)],
      c_qhChannels =
        [(0, \<lparr>iId = 0, channel_qsName = ''Root'', qsDesc = [], qbaDescHash = ''d0'',
              qlUsers = [7, 42]\<rparr>)],
      overwriteMicrophoneActivation = False,
      m_curator = \<lparr>m_entries = Map.empty\<rparr>,
      heap = Map.empty,
      malloc_result = (\<lambda>n. 4096 + 64 * n),
      malloc_calls = 0,
      MAX_DATA_LENGTH = 1000,
      MAX_DATA_ID_LENGTH = 100,
      events = []\<rparr>"

section \<open>Notions used in the statements\<close>

text \<open>
  The block that holds a string handed to a plugin: the copy made by \<^verbatim>\<open>strcpy\<close>, then
  the bytes of the allocation that were never written, if the string contains a NUL.
\<close>

definition string_block :: "string \<Rightarrow> block" where
  "string_block str =
     Chars (map Some (c_str str) @ replicate (length str + 1 - length (c_str str)) None)"

text \<open>The two read-only entry points that store the blob they fetched from the database.\<close>

definition caches_blob :: "api_call \<Rightarrow> bool" where
  "caches_blob call =
     (case call of Call_getUserComment _ _ _ \<Rightarrow> True
      | Call_getChannelDescription _ _ _ \<Rightarrow> True | _ \<Rightarrow> False)"

text \<open>\<open>p'\<close> is \<open>p\<close> after one \<^verbatim>\<open>set_value\<close> of a status other than the time-out.\<close>

definition sets_value :: "APIPromise \<Rightarrow> APIPromise \<Rightarrow> bool" where
  "sets_value p p' =
     (\<exists>code. code \<noteq> MUMBLE_EC_API_REQUEST_TIMEOUT \<and> p' = set_value code p)"

text \<open>
  The states the wrapper and the entry point can be in together, in three groups. In the
  first the entry point has not run and the promise is as it was made. In the second the
  entry point has run to its end on the promise as it was made. In the third the wrapper
  has cancelled the promise before the entry point tested it. \<open>wrapper_inv\<close> adds that the
  mutex is held exactly while the entry point is between \<^verbatim>\<open>lock\<close> and its return.
\<close>

definition pending :: "Global \<Rightarrow> system \<Rightarrow> bool" where
  "pending g \<sigma> =
     (sys_promise \<sigma> = make_promise \<and> sys_host \<sigma> = g \<and> sys_out \<sigma> = []
      \<and> dpc \<sigma> \<in> {D_idle, D_queued, D_locked, D_body}
      \<and> wpc \<sigma> \<in> {W_call, W_in_call, W_wait_800, W_cancel}
      \<and> (wpc \<sigma> = W_call \<longrightarrow> dpc \<sigma> = D_idle)
      \<and> (dpc \<sigma> = D_idle \<longrightarrow> wpc \<sigma> = W_call)
      \<and> (wpc \<sigma> = W_cancel \<longrightarrow> wait_started \<sigma> + 800 \<le> sys_now \<sigma>))"

definition completed :: "api_call \<Rightarrow> Global \<Rightarrow> system \<Rightarrow> bool" where
  "completed call g \<sigma> =
     (let r = dispatch call make_promise g
      in sys_host \<sigma> = o_host r \<and> sys_out \<sigma> = o_out r
         \<and> m_promise (sys_promise \<sigma>) = m_promise (o_promise r)
         \<and> \<not> future_error (sys_promise \<sigma>)
         \<and> dpc \<sigma> \<in> {D_exit, D_returned}
         \<and> wpc \<sigma> \<notin> {W_call, W_set_timeout}
         \<and> (case wpc \<sigma> of W_returned v \<Rightarrow> m_promise (o_promise r) = Some v | _ \<Rightarrow> True))"

definition timed_out :: "Global \<Rightarrow> system \<Rightarrow> bool" where
  "timed_out g \<sigma> =
     (sys_host \<sigma> = g \<and> sys_out \<sigma> = []
      \<and> dpc \<sigma> \<in> {D_queued, D_locked, D_exit, D_returned}
      \<and> wait_started \<sigma> + 800 \<le> sys_now \<sigma>
      \<and> isCancelled (sys_promise \<sigma>) \<and> \<not> future_error (sys_promise \<sigma>)
      \<and> (case wpc \<sigma> of
            W_wait_0 \<Rightarrow> m_promise (sys_promise \<sigma>) = None
          | W_set_timeout \<Rightarrow> m_promise (sys_promise \<sigma>) = None
          | W_get \<Rightarrow> m_promise (sys_promise \<sigma>) = Some MUMBLE_EC_API_REQUEST_TIMEOUT
          | W_returned v \<Rightarrow> v = MUMBLE_EC_API_REQUEST_TIMEOUT
              \<and> m_promise (sys_promise \<sigma>) = Some MUMBLE_EC_API_REQUEST_TIMEOUT
          | _ \<Rightarrow> False))"

definition wrapper_inv :: "api_call \<Rightarrow> Global \<Rightarrow> system \<Rightarrow> bool" where
  "wrapper_inv call g \<sigma> =
     ((m_lock \<sigma> \<longleftrightarrow> dpc \<sigma> \<in> {D_locked, D_body, D_exit})
      \<and> (pending g \<sigma> \<or> completed call g \<sigma> \<or> timed_out g \<sigma>))"

text \<open>The example state after plugin 3 has asked for Alice's name and not yet freed it.\<close>

definition example_host_lent :: Global where
  "example_host_lent = o_host (getUserName_v_1_0_x 3 1 42 make_promise example_host)"

section \<open>Properties of the entry points\<close>

lemmas entry_defs =
  freeMemory_v_1_0_x_def getActiveServerConnection_v_1_0_x_def
  isConnectionSynchronized_v_1_0_x_def getLocalUserID_v_1_0_x_def getUserName_v_1_0_x_def
  getChannelName_v_1_0_x_def getAllUsers_v_1_0_x_def getAllChannels_v_1_0_x_def
  getChannelOfUser_v_1_0_x_def getUsersInChannel_v_1_0_x_def
  getLocalUserTransmissionMode_v_1_0_x_def isUserLocallyMuted_v_1_0_x_def
  isLocalUserMuted_v_1_0_x_def isLocalUserDeafened_v_1_0_x_def getUserHash_v_1_0_x_def
  getServerHash_v_1_0_x_def requestLocalUserTransmissionMode_v_1_0_x_def
  getUserComment_v_1_0_x_def getChannelDescription_v_1_0_x_def requestUserMove_v_1_0_x_def
  requestMicrophoneActivationOverwrite_v_1_0_x_def requestLocalMute_v_1_0_x_def
  requestLocalUserMute_v_1_0_x_def requestLocalUserDeaf_v_1_0_x_def
  requestSetLocalUserComment_v_1_0_x_def findUserByName_v_1_0_x_def
  findChannelByName_v_1_0_x_def getMumbleSetting_bool_v_1_0_x_def
  getMumbleSetting_int_v_1_0_x_def getMumbleSetting_double_v_1_0_x_def
  getMumbleSetting_string_v_1_0_x_def setMumbleSetting_bool_v_1_0_x_def
  setMumbleSetting_int_v_1_0_x_def setMumbleSetting_double_v_1_0_x_def
  setMumbleSetting_string_v_1_0_x_def sendData_v_1_0_x_def log_v_1_0_x_def
  playSample_v_1_0_x_def playSample_v_1_2_x_def

text \<open>
  C3. An entry point that finds its promise cancelled returns at once: the promise, the
  state of the client and the out-parameters are untouched.
\<close>

theorem cancelled_call_is_abandoned:
  "isCancelled promise \<Longrightarrow>
   dispatch call promise g = \<lparr>o_promise = promise, o_host = g, o_out = []\<rparr>"
  by (cases call) (simp_all add: entry_defs RETURN_def)

text \<open>
  C1, as amended. Every entry point other than \<^verbatim>\<open>freeMemory\<close>, when it runs with a
  promise that is not cancelled and a caller that is not a loaded plugin, stores
  \<^verbatim>\<open>MUMBLE_EC_INVALID_PLUGIN_ID\<close> and does nothing else, whatever the connection, the
  synchronisation state and the other arguments are.
\<close>

theorem unknown_plugin_rejected_first:
  assumes "\<not> is_freeMemory call" and "\<not> isCancelled promise"
    and "\<not> pluginExists g (callerID_of call)"
  shows "dispatch call promise g =
         \<lparr>o_promise = set_value MUMBLE_EC_INVALID_PLUGIN_ID promise, o_host = g, o_out = []\<rparr>"
  using assms
  by (cases call)
     (simp_all add: entry_defs EXIT_WITH_def is_freeMemory_def pluginExists_def getPlugin_def)

lemma step_playSample:
  "step (Call_playSample_v_1_0_x c path) main_thread a \<sigma> =
   step (Call_playSample_v_1_2_x c path 1.0) main_thread a \<sigma>"
  by (cases a) (simp_all add: playSample_v_1_0_x_def)

lemma exec_playSample:
  "exec (Call_playSample_v_1_0_x c path) main_thread schedule \<sigma> =
   exec (Call_playSample_v_1_2_x c path 1.0) main_thread schedule \<sigma>"
  by (induction schedule arbitrary: \<sigma>) (simp_all add: step_playSample split: option.splits)

text \<open>
  C8. \<^verbatim>\<open>playSample_v_1_0_x\<close> is \<^verbatim>\<open>playSample_v_1_2_x\<close> at volume 1.0: same promise, same
  state of the client, same out-parameters, for every caller, path and state; and the two
  C wrappers behave alike under every schedule.
\<close>

theorem playSample_v_1_0_x_delegates:
  "playSample_v_1_0_x callerID samplePath promise g =
     playSample_v_1_2_x callerID samplePath 1.0 promise g \<and>
   exec (Call_playSample_v_1_0_x callerID samplePath) main_thread schedule \<sigma> =
     exec (Call_playSample_v_1_2_x callerID samplePath 1.0) main_thread schedule \<sigma>"
  by (simp add: playSample_v_1_0_x_def exec_playSample)

text \<open>
  C10. \<^verbatim>\<open>freeMemory\<close> never looks at the caller: two calls that differ in the caller id
  only do the same. A call whose promise is not cancelled stores \<^verbatim>\<open>MUMBLE_STATUS_OK\<close>
  when the curator tracks the pointer and \<^verbatim>\<open>MUMBLE_EC_POINTER_NOT_FOUND\<close> when it does
  not, also for a caller that is not a loaded plugin and for a pointer that another plugin's
  call registered.
\<close>

theorem freeMemory_ignores_callerID:
  "freeMemory_v_1_0_x c1 ptr promise g = freeMemory_v_1_0_x c2 ptr promise g \<and>
   (\<not> isCancelled promise \<longrightarrow>
      o_promise (freeMemory_v_1_0_x c1 ptr promise g) =
        set_value (if ptr \<in> dom (m_entries (m_curator g)) then MUMBLE_STATUS_OK
                   else MUMBLE_EC_POINTER_NOT_FOUND) promise)"
  by (auto simp add: freeMemory_v_1_0_x_def EXIT_WITH_def Let_def split: option.splits)

lemma EXIT_WITH_sel [simp]:
  "o_promise (EXIT_WITH code p g out) = set_value code p"
  "o_host (EXIT_WITH code p g out) = g"
  "o_out (EXIT_WITH code p g out) = out"
  by (simp_all add: EXIT_WITH_def)

lemma RETURN_sel [simp]:
  "o_promise (RETURN p g) = p" "o_host (RETURN p g) = g" "o_out (RETURN p g) = []"
  by (simp_all add: RETURN_def)

lemma export_string_sel [simp]:
  "o_promise (export_string str c fn p g) = set_value MUMBLE_STATUS_OK p"
  "o_out (export_string str c fn p g) = [Out_pointer (malloc_result g (malloc_calls g))]"
  by (simp_all add: export_string_def malloc_def Let_def)

lemma export_string_tracked [simp]:
  "ptr = malloc_result g (malloc_calls g) \<Longrightarrow>
   \<exists>e. m_entries (m_curator (o_host (export_string str c fn p g))) ptr = Some e"
  by (simp add: export_string_def malloc_def strcpy_def entries_insert_def Let_def split: option.splits)

lemma export_string_heap [simp]:
  "ptr = malloc_result g (malloc_calls g) \<Longrightarrow>
   heap (o_host (export_string str c fn p g)) ptr = Some (string_block str)"
  by (simp add: export_string_def malloc_def strcpy_def entries_insert_def Let_def block_bytes_def string_block_def split: option.splits)

lemma export_string_backing [simp]:
  "same_backing (o_host (export_string str c fn p g)) g' = same_backing g g'"
  by (simp add: export_string_def malloc_def strcpy_def same_backing_def Let_def split: option.splits)

lemma export_ids_sel [simp]:
  "o_promise (export_ids ids c fn p g) = set_value MUMBLE_STATUS_OK p"
  "o_out (export_ids ids c fn p g) = [Out_pointer (malloc_result g (malloc_calls g)), Out_size (length ids)]"
  by (simp_all add: export_ids_def malloc_def Let_def)

lemma export_ids_tracked [simp]:
  "ptr = malloc_result g (malloc_calls g) \<Longrightarrow>
   \<exists>e. m_entries (m_curator (o_host (export_ids ids c fn p g))) ptr = Some e"
  by (simp add: export_ids_def malloc_def store_ids_def entries_insert_def Let_def split: option.splits)

lemma export_ids_heap [simp]:
  "ptr = malloc_result g (malloc_calls g) \<Longrightarrow>
   heap (o_host (export_ids ids c fn p g)) ptr = Some (if ids = [] then Raw 0 else Ids ids)"
  by (simp add: export_ids_def malloc_def store_ids_def entries_insert_def Let_def split: option.splits)

lemma export_ids_backing [simp]:
  "same_backing (o_host (export_ids ids c fn p g)) g' = same_backing g g'"
  by (simp add: export_ids_def malloc_def store_ids_def same_backing_def Let_def split: option.splits)

lemma returned_pointer_tracked:
  assumes "Out_pointer ptr \<in> set (o_out (dispatch call p g))"
  shows "o_promise (dispatch call p g) = set_value MUMBLE_STATUS_OK p \<and>
         m_entries (m_curator (o_host (dispatch call p g))) ptr \<noteq> None"
  using assms
  by (cases call)
     (auto simp add: entry_defs Let_def split_def split: if_splits option.splits AudioTransmit.splits)

lemma freeMemory_tracked:
  assumes "\<not> isCancelled p" and "m_entries (m_curator g) ptr = Some e"
  shows "freeMemory_v_1_0_x c ptr p g =
         \<lparr>o_promise = set_value MUMBLE_STATUS_OK p,
          o_host = (call_deleter (m_deleter e) ptr g)\<lparr>m_curator := entries_erase ptr (m_curator g)\<rparr>,
          o_out = []\<rparr>"
  using assms by (cases "m_deleter e") (simp add: freeMemory_v_1_0_x_def EXIT_WITH_def Let_def free_def)

lemma freeMemory_untracked:
  assumes "\<not> isCancelled p" and "m_entries (m_curator g) ptr = None"
  shows "freeMemory_v_1_0_x c ptr p g =
         \<lparr>o_promise = set_value MUMBLE_EC_POINTER_NOT_FOUND p, o_host = g, o_out = []\<rparr>"
  using assms by (simp add: freeMemory_v_1_0_x_def EXIT_WITH_def)


text \<open>
  C4. A pointer that a call wrote to an out-parameter was written by a call that ended with
  \<^verbatim>\<open>MUMBLE_STATUS_OK\<close>, and the curator tracks it. Freeing it calls the deleter stored in
  its entry, erases the entry and stores \<^verbatim>\<open>MUMBLE_STATUS_OK\<close>. Freeing it again stores
  \<^verbatim>\<open>MUMBLE_EC_POINTER_NOT_FOUND\<close> and changes nothing, and so does freeing any pointer
  \<open>q\<close> the curator does not track, in any state \<open>g'\<close>.
\<close>

theorem returned_pointer_freed_once:
  assumes "Out_pointer ptr \<in> set (o_out (dispatch call p1 g))"
    and "\<not> isCancelled p2" and "\<not> isCancelled p3"
  shows "o_promise (dispatch call p1 g) = set_value MUMBLE_STATUS_OK p1 \<and>
     (\<exists>e. m_entries (m_curator (o_host (dispatch call p1 g))) ptr = Some e \<and>
        freeMemory_v_1_0_x c2 ptr p2 (o_host (dispatch call p1 g)) =
          \<lparr>o_promise = set_value MUMBLE_STATUS_OK p2,
           o_host = (call_deleter (m_deleter e) ptr (o_host (dispatch call p1 g)))
                      \<lparr>m_curator := entries_erase ptr (m_curator (o_host (dispatch call p1 g)))\<rparr>,
           o_out = []\<rparr>) \<and>
     m_entries (m_curator (o_host (freeMemory_v_1_0_x c2 ptr p2 (o_host (dispatch call p1 g))))) =
       (m_entries (m_curator (o_host (dispatch call p1 g))))(ptr := None) \<and>
     freeMemory_v_1_0_x c3 ptr p3 (o_host (freeMemory_v_1_0_x c2 ptr p2 (o_host (dispatch call p1 g)))) =
       \<lparr>o_promise = set_value MUMBLE_EC_POINTER_NOT_FOUND p3,
        o_host = o_host (freeMemory_v_1_0_x c2 ptr p2 (o_host (dispatch call p1 g))),
        o_out = []\<rparr> \<and>
     (m_entries (m_curator g') q = None \<longrightarrow>
        freeMemory_v_1_0_x c3 q p3 g' =
          \<lparr>o_promise = set_value MUMBLE_EC_POINTER_NOT_FOUND p3, o_host = g', o_out = []\<rparr>)"
proof -
  define g1 where "g1 = o_host (dispatch call p1 g)"
  from returned_pointer_tracked [OF assms(1)]
  obtain e where ok: "o_promise (dispatch call p1 g) = set_value MUMBLE_STATUS_OK p1"
    and tracked: "m_entries (m_curator g1) ptr = Some e"
    by (auto simp add: g1_def)
  define g2 where "g2 = (call_deleter (m_deleter e) ptr g1)\<lparr>m_curator := entries_erase ptr (m_curator g1)\<rparr>"
  have first: "freeMemory_v_1_0_x c2 ptr p2 g1 =
      \<lparr>o_promise = set_value MUMBLE_STATUS_OK p2, o_host = g2, o_out = []\<rparr>"
    unfolding g2_def by (rule freeMemory_tracked [OF assms(2) tracked])
  have erased: "m_entries (m_curator g2) = (m_entries (m_curator g1))(ptr := None)"
    by (cases "m_deleter e") (simp add: g2_def entries_erase_def free_def)
  then have gone: "m_entries (m_curator g2) ptr = None"
    by simp
  have second: "freeMemory_v_1_0_x c3 ptr p3 g2 =
      \<lparr>o_promise = set_value MUMBLE_EC_POINTER_NOT_FOUND p3, o_host = g2, o_out = []\<rparr>"
    by (rule freeMemory_untracked [OF assms(3) gone])
  have other: "m_entries (m_curator g') q = None \<longrightarrow>
        freeMemory_v_1_0_x c3 q p3 g' =
          \<lparr>o_promise = set_value MUMBLE_EC_POINTER_NOT_FOUND p3, o_host = g', o_out = []\<rparr>"
    using freeMemory_untracked [OF assms(3)] by blast
  from ok tracked first erased second other show ?thesis
    unfolding g1_def [symmetric] by (simp add: g2_def)
qed

text \<open>
  C5. For each of the eight typed accessors of settings, called by a loaded plugin with a
  promise that is not cancelled: the key \<^verbatim>\<open>MUMBLE_SK_INVALID\<close> and any integer that is no
  enumerator give \<^verbatim>\<open>MUMBLE_EC_UNKNOWN_SETTINGS_KEY\<close>; a key whose value has another type
  than the accessor gives \<^verbatim>\<open>MUMBLE_EC_WRONG_SETTINGS_TYPE\<close>. In both cases nothing is
  written to an out-parameter and the settings are unchanged.
\<close>

theorem settings_access_type_checked:
  assumes "settings_accessor call = Some (ty, key)" and "\<not> isCancelled promise"
    and "pluginExists g (callerID_of call)"
  shows "(key = MUMBLE_SK_INVALID \<or> key = MUMBLE_SK_unlisted n \<longrightarrow>
            dispatch call promise g =
              \<lparr>o_promise = set_value MUMBLE_EC_UNKNOWN_SETTINGS_KEY promise, o_host = g, o_out = []\<rparr>) \<and>
         (isValid (getMumbleSettingHelper key g) \<and> variant_type (getMumbleSettingHelper key g) \<noteq> ty \<longrightarrow>
            dispatch call promise g =
              \<lparr>o_promise = set_value MUMBLE_EC_WRONG_SETTINGS_TYPE promise, o_host = g, o_out = []\<rparr>)"
proof -
  have not_cancelled: "isCancelled promise = False"
    using assms(2) by simp
  show ?thesis
    using assms(1,3)
    by (cases call; simp add: settings_accessor_def; cases key)
       (simp_all add: entry_defs EXIT_WITH_def getMumbleSettingHelper_def
          setMumbleSettingHelper_def isValid_def Let_def not_cancelled)
qed


text \<open>
  C6. When the call passes the checks of plugin, connection and synchronisation, and the
  user's comment (the channel's description) is empty, its hash is known and the database
  holds no blob for the hash, \<^verbatim>\<open>getUserComment\<close> (\<^verbatim>\<open>getChannelDescription\<close>) stores
  \<^verbatim>\<open>MUMBLE_EC_UNSYNCHRONIZED_BLOB\<close>; it allocates nothing, writes no out-parameter and
  leaves the state as it was.
\<close>

theorem unsynchronized_blob_is_an_error:
  assumes "\<not> isCancelled promise" and "pluginExists g callerID"
    and "connection_verified g connection" and "uiSession g \<noteq> 0"
  shows "(ClientUser_get g userID = Some user \<and> qsComment user = [] \<and> qbaCommentHash user \<noteq> []
            \<and> db_blob g (qbaCommentHash user) = [] \<longrightarrow>
          getUserComment_v_1_0_x callerID connection userID promise g =
            \<lparr>o_promise = set_value MUMBLE_EC_UNSYNCHRONIZED_BLOB promise, o_host = g, o_out = []\<rparr>) \<and>
         (Channel_get g channelID = Some channel \<and> qsDesc channel = [] \<and> qbaDescHash channel \<noteq> []
            \<and> db_blob g (qbaDescHash channel) = [] \<longrightarrow>
          getChannelDescription_v_1_0_x callerID connection channelID promise g =
            \<lparr>o_promise = set_value MUMBLE_EC_UNSYNCHRONIZED_BLOB promise, o_host = g, o_out = []\<rparr>)"
proof (intro conjI impI)
  assume h: "ClientUser_get g userID = Some user \<and> qsComment user = [] \<and> qbaCommentHash user \<noteq> []
            \<and> db_blob g (qbaCommentHash user) = []"
  then have "user\<lparr>qsComment := []\<rparr> = user" by simp
  with h have "AList.update userID (user\<lparr>qsComment := []\<rparr>) (c_qmUsers g) = c_qmUsers g"
    by (simp add: update_triv ClientUser_get_def)
  then show "getUserComment_v_1_0_x callerID connection userID promise g =
            \<lparr>o_promise = set_value MUMBLE_EC_UNSYNCHRONIZED_BLOB promise, o_host = g, o_out = []\<rparr>"
    using assms h by (simp add: getUserComment_v_1_0_x_def EXIT_WITH_def Let_def)
next
  assume h: "Channel_get g channelID = Some channel \<and> qsDesc channel = [] \<and> qbaDescHash channel \<noteq> []
            \<and> db_blob g (qbaDescHash channel) = []"
  then have "channel\<lparr>qsDesc := []\<rparr> = channel" by simp
  with h have "AList.update channelID (channel\<lparr>qsDesc := []\<rparr>) (c_qhChannels g) = c_qhChannels g"
    by (simp add: update_triv Channel_get_def)
  then show "getChannelDescription_v_1_0_x callerID connection channelID promise g =
            \<lparr>o_promise = set_value MUMBLE_EC_UNSYNCHRONIZED_BLOB promise, o_host = g, o_out = []\<rparr>"
    using assms h by (simp add: getChannelDescription_v_1_0_x_def EXIT_WITH_def Let_def)
qed

lemma output_of_EXIT_WITH [simp]:
  "output_of (EXIT_WITH code p g out) =
     map (\<lambda>w. case w of Out_pointer a \<Rightarrow> Inl (heap g a) | _ \<Rightarrow> Inr w) out"
  by (simp add: output_of_def split: out_param.splits)

lemma output_of_export_string [simp]:
  "output_of (export_string str c fn p g) = [Inl (Some (string_block str))]"
  by (simp add: output_of_def)

lemma output_of_export_ids [simp]:
  "output_of (export_ids ids c fn p g) =
     [Inl (Some (if ids = [] then Raw 0 else Ids ids)), Inr (Out_size (length ids))]"
  by (simp add: output_of_def)

lemma m_promise_set_value [simp]:
  "m_promise p = None \<Longrightarrow> m_promise (set_value code p) = Some code"
  by (simp add: set_value_def)

lemmas lookup_defs =
  pluginExists_def getPlugin_def connection_verified_def ClientUser_get_def Channel_get_def
  getMumbleSettingHelper_def

lemma backing_determines_result:
  assumes "read_only call" and "same_backing g2 g1"
    and "isCancelled p1 = False" and "isCancelled p2 = False"
    and "m_promise p1 = None" and "m_promise p2 = None"
  shows "m_promise (o_promise (dispatch call p2 g2)) = m_promise (o_promise (dispatch call p1 g1)) \<and>
         output_of (dispatch call p2 g2) = output_of (dispatch call p1 g1)"
  using assms
  by (cases call; simp add: read_only_def)
     (simp_all add: entry_defs lookup_defs same_backing_def isValid_def Let_def
         split: option.splits AudioTransmit.splits mumble_settings_key_t.splits)

lemma same_backing_refl [simp]: "same_backing g g"
  by (simp add: same_backing_def)

lemma read_only_keeps_backing:
  assumes "read_only call" and "\<not> caches_blob call"
  shows "same_backing (o_host (dispatch call p g)) g"
  using assms
  by (cases call; simp add: read_only_def caches_blob_def)
     (simp_all add: entry_defs Let_def split: option.splits AudioTransmit.splits)



lemma export_string_lookups [simp]:
  "pluginExists (o_host (export_string str c fn p g)) = pluginExists g"
  "connection_verified (o_host (export_string str c fn p g)) = connection_verified g"
  "uiSession (o_host (export_string str c fn p g)) = uiSession g"
  "ClientUser_get (o_host (export_string str c fn p g)) = ClientUser_get g"
  "Channel_get (o_host (export_string str c fn p g)) = Channel_get g"
  "db_blob (o_host (export_string str c fn p g)) = db_blob g"
  by (simp_all add: export_string_def malloc_def strcpy_def Let_def lookup_defs fun_eq_iff
        split: option.splits)

lemma lookups_after_users_update [simp]:
  "pluginExists (g\<lparr>c_qmUsers := us\<rparr>) = pluginExists g"
  "connection_verified (g\<lparr>c_qmUsers := us\<rparr>) = connection_verified g"
  "ClientUser_get (g\<lparr>c_qmUsers := AList.update u user (c_qmUsers g)\<rparr>) u = Some user"
  by (simp_all add: lookup_defs fun_eq_iff update_conv')

lemma lookups_after_channels_update [simp]:
  "pluginExists (g\<lparr>c_qhChannels := cs\<rparr>) = pluginExists g"
  "connection_verified (g\<lparr>c_qhChannels := cs\<rparr>) = connection_verified g"
  "Channel_get (g\<lparr>c_qhChannels := AList.update ch channel (c_qhChannels g)\<rparr>) ch = Some channel"
  by (simp_all add: lookup_defs fun_eq_iff update_conv')

lemma getUserComment_repeat:
  assumes nc: "isCancelled p1 = False" "isCancelled p2 = False"
    and fresh: "m_promise p1 = None" "m_promise p2 = None"
    and ok: "m_promise (o_promise (getUserComment_v_1_0_x c conn u p1 g)) = Some MUMBLE_STATUS_OK"
  shows "m_promise (o_promise (getUserComment_v_1_0_x c conn u p2
            (o_host (getUserComment_v_1_0_x c conn u p1 g)))) = Some MUMBLE_STATUS_OK \<and>
         output_of (getUserComment_v_1_0_x c conn u p2
            (o_host (getUserComment_v_1_0_x c conn u p1 g))) =
         output_of (getUserComment_v_1_0_x c conn u p1 g)"
proof -
  from ok have pre: "pluginExists g c" "connection_verified g conn" "uiSession g \<noteq> 0"
    by (simp_all add: getUserComment_v_1_0_x_def nc fresh split: if_splits)
  from ok pre obtain user where user: "ClientUser_get g u = Some user"
    by (cases "ClientUser_get g u") (simp_all add: getUserComment_v_1_0_x_def nc fresh)
  show ?thesis
  proof (cases "qsComment user = [] \<and> qbaCommentHash user \<noteq> []")
    case False
    then have cond: "(qsComment user = [] \<and> qbaCommentHash user \<noteq> []) = False"
      by simp
    from pre user show ?thesis
      by (simp add: getUserComment_v_1_0_x_def nc fresh cond)
  next
    case unknown: True
    show ?thesis
    proof (cases "db_blob g (qbaCommentHash user) = []")
      case True
      with ok pre user unknown show ?thesis
        by (simp add: getUserComment_v_1_0_x_def nc fresh Let_def)
    next
      case False
      with pre user unknown show ?thesis
        by (simp add: getUserComment_v_1_0_x_def nc fresh Let_def)
    qed
  qed
qed

lemma getChannelDescription_repeat:
  assumes nc: "isCancelled p1 = False" "isCancelled p2 = False"
    and fresh: "m_promise p1 = None" "m_promise p2 = None"
    and ok: "m_promise (o_promise (getChannelDescription_v_1_0_x c conn ch p1 g)) =
             Some MUMBLE_STATUS_OK"
  shows "m_promise (o_promise (getChannelDescription_v_1_0_x c conn ch p2
            (o_host (getChannelDescription_v_1_0_x c conn ch p1 g)))) = Some MUMBLE_STATUS_OK \<and>
         output_of (getChannelDescription_v_1_0_x c conn ch p2
            (o_host (getChannelDescription_v_1_0_x c conn ch p1 g))) =
         output_of (getChannelDescription_v_1_0_x c conn ch p1 g)"
proof -
  from ok have pre: "pluginExists g c" "connection_verified g conn" "uiSession g \<noteq> 0"
    by (simp_all add: getChannelDescription_v_1_0_x_def nc fresh split: if_splits)
  from ok pre obtain channel where channel: "Channel_get g ch = Some channel"
    by (cases "Channel_get g ch") (simp_all add: getChannelDescription_v_1_0_x_def nc fresh)
  show ?thesis
  proof (cases "qsDesc channel = [] \<and> qbaDescHash channel \<noteq> []")
    case False
    then have cond: "(qsDesc channel = [] \<and> qbaDescHash channel \<noteq> []) = False"
      by simp
    from pre channel show ?thesis
      by (simp add: getChannelDescription_v_1_0_x_def nc fresh cond)
  next
    case unknown: True
    show ?thesis
    proof (cases "db_blob g (qbaDescHash channel) = []")
      case True
      with ok pre channel unknown show ?thesis
        by (simp add: getChannelDescription_v_1_0_x_def nc fresh Let_def)
    next
      case False
      with pre channel unknown show ?thesis
        by (simp add: getChannelDescription_v_1_0_x_def nc fresh Let_def)
    qed
  qed
qed


lemma repeat_on_result_state:
  assumes ro: "read_only call" and nc: "isCancelled p1 = False" "isCancelled p2 = False"
    and fresh: "m_promise p1 = None" "m_promise p2 = None"
    and ok: "m_promise (o_promise (dispatch call p1 g)) = Some MUMBLE_STATUS_OK"
  shows "m_promise (o_promise (dispatch call p2 (o_host (dispatch call p1 g)))) =
           Some MUMBLE_STATUS_OK \<and>
         output_of (dispatch call p2 (o_host (dispatch call p1 g))) =
           output_of (dispatch call p1 g)"
proof (cases "caches_blob call")
  case False
  from read_only_keeps_backing [OF ro False]
  have "same_backing (o_host (dispatch call p1 g)) g" .
  from backing_determines_result [OF ro this nc fresh] ok show ?thesis
    by simp
next
  case True
  then show ?thesis
    using getUserComment_repeat [OF nc fresh] getChannelDescription_repeat [OF nc fresh] ok
    by (cases call) (simp_all add: caches_blob_def)
qed

text \<open>
  C7. A read-only call that ended with \<^verbatim>\<open>MUMBLE_STATUS_OK\<close>, repeated with the same
  arguments in any state \<open>g2\<close> whose backing state is the one the first call left, ends with
  \<^verbatim>\<open>MUMBLE_STATUS_OK\<close> again and its output is the same: equal scalars, and equal blocks
  behind the pointers.
\<close>

theorem read_only_call_repeatable:
  assumes "read_only call" and "\<not> isCancelled p1" and "\<not> isCancelled p2"
    and "m_promise p1 = None" and "m_promise p2 = None"
    and "m_promise (o_promise (dispatch call p1 g)) = Some MUMBLE_STATUS_OK"
    and "same_backing g2 (o_host (dispatch call p1 g))"
  shows "m_promise (o_promise (dispatch call p2 g2)) = Some MUMBLE_STATUS_OK \<and>
         output_of (dispatch call p2 g2) = output_of (dispatch call p1 g)"
proof -
  have nc: "isCancelled p1 = False" "isCancelled p2 = False"
    using assms(2,3) by simp_all
  from backing_determines_result [OF assms(1) assms(7) nc(2) nc(2) assms(5) assms(5)]
    repeat_on_result_state [OF assms(1) nc assms(4) assms(5) assms(6)]
  show ?thesis by simp
qed

lemma sets_value_set_value [simp]:
  "code \<noteq> MUMBLE_EC_API_REQUEST_TIMEOUT \<Longrightarrow> sets_value p (set_value code p)"
  by (auto simp add: sets_value_def)

lemma setMumbleSettingHelper_not_timeout [simp]:
  "fst (setMumbleSettingHelper key val st) \<noteq> MUMBLE_EC_API_REQUEST_TIMEOUT"
  by (cases key) (simp_all add: setMumbleSettingHelper_def)

lemma dispatch_sets_value:
  assumes "isCancelled p = False"
  shows "sets_value p (o_promise (dispatch call p g))"
  using assms
  by (cases call)
     (simp_all add: entry_defs Let_def split_def
        split: option.splits AudioTransmit.splits)

section \<open>The wrapper and the entry point, interleaved\<close>

lemma fresh_result:
  "\<exists>code. code \<noteq> MUMBLE_EC_API_REQUEST_TIMEOUT \<and>
      o_promise (dispatch call make_promise g) =
      \<lparr>m_promise = Some code, m_cancelled = False, future_error = False\<rparr>"
  using dispatch_sets_value [of make_promise call g]
  by (auto simp add: sets_value_def isCancelled_def make_promise_def set_value_def)

lemma inv_initial: "wrapper_inv call g (initial t g)"
  by (simp add: wrapper_inv_def pending_def initial_def)




lemma promise_facts [simp]:
  "m_promise make_promise = None"
  "isCancelled make_promise = False"
  "future_error make_promise = False"
  "isCancelled (cancel p) = True"
  "m_promise (cancel p) = m_promise p"
  "future_error (cancel p) = future_error p"
  "cancel (cancel p) = cancel p"
  "isCancelled (set_value v p) = isCancelled p"
  "m_promise p = None \<Longrightarrow> future_error (set_value v p) = future_error p"
  "cancel make_promise \<noteq> make_promise"
  by (simp_all add: make_promise_def isCancelled_def cancel_def set_value_def split: option.splits)

lemma fresh_result_facts:
  "\<exists>code. m_promise (o_promise (dispatch call make_promise g)) = Some code"
  "isCancelled (o_promise (dispatch call make_promise g)) = False"
  "future_error (o_promise (dispatch call make_promise g)) = False"
  "m_promise (o_promise (dispatch call make_promise g)) \<noteq> Some MUMBLE_EC_API_REQUEST_TIMEOUT"
  using fresh_result [of call g] by (auto simp add: isCancelled_def)



lemma inv_step_cases:
  assumes "wrapper_inv call g \<sigma>"
  shows "case step call main_thread a \<sigma> of None \<Rightarrow> True | Some \<sigma>' \<Rightarrow> wrapper_inv call g \<sigma>'"
proof -
  obtain code where r: "m_promise (o_promise (dispatch call make_promise g)) = Some code"
    using fresh_result_facts(1) by blast
  note facts = r fresh_result_facts(2,3)
  from assms have lock: "m_lock \<sigma> \<longleftrightarrow> dpc \<sigma> \<in> {D_locked, D_body, D_exit}"
    and phase: "pending g \<sigma> \<or> completed call g \<sigma> \<or> timed_out g \<sigma>"
    by (simp_all add: wrapper_inv_def)
  from phase show ?thesis
  proof (elim disjE)
    assume "pending g \<sigma>"
    with lock show ?thesis
      by (cases a; cases "dpc \<sigma>"; cases "wpc \<sigma>")
         (simp_all add: wrapper_inv_def pending_def completed_def timed_out_def Let_def facts)
  next
    assume "completed call g \<sigma>"
    with lock show ?thesis
      by (cases a; cases "dpc \<sigma>"; cases "wpc \<sigma>")
         (simp_all add: wrapper_inv_def pending_def completed_def timed_out_def Let_def facts)
  next
    assume "timed_out g \<sigma>"
    with lock show ?thesis
      by (cases a; cases "dpc \<sigma>"; cases "wpc \<sigma>")
         (simp_all add: wrapper_inv_def pending_def completed_def timed_out_def Let_def facts)
  qed
qed

lemma inv_step:
  assumes "wrapper_inv call g \<sigma>" and "step call main_thread a \<sigma> = Some \<sigma>'"
  shows "wrapper_inv call g \<sigma>'"
  using inv_step_cases [OF assms(1), of main_thread a] assms(2) by simp



lemma inv_exec:
  "wrapper_inv call g \<sigma> \<Longrightarrow> exec call main_thread schedule \<sigma> = Some \<sigma>' \<Longrightarrow>
   wrapper_inv call g \<sigma>'"
proof (induction schedule arbitrary: \<sigma>)
  case Nil
  then show ?case by simp
next
  case (Cons a schedule)
  from Cons.prems(2) obtain \<sigma>1 where s: "step call main_thread a \<sigma> = Some \<sigma>1"
    and e: "exec call main_thread schedule \<sigma>1 = Some \<sigma>'"
    by (auto split: option.splits)
  from inv_step [OF Cons.prems(1) s] have "wrapper_inv call g \<sigma>1" .
  from Cons.IH [OF this e] show ?case .
qed

text \<open>
  C2. In every state that a schedule of the wrapper and the entry point reaches from the
  start of a call: \<^verbatim>\<open>set_value\<close> has never been called on a satisfied promise; and if the
  wrapper has returned \<open>v\<close>, then \<open>v\<close> is what the promise holds, and either the entry point
  ran to its end and \<open>v\<close> is the result it stored (also when the wrapper had timed out and
  cancelled in the meantime), or \<open>v\<close> is \<^verbatim>\<open>MUMBLE_EC_API_REQUEST_TIMEOUT\<close>, at least 800 ms
  have passed since the wait began, the promise is cancelled, and the entry point has
  changed nothing, written no out-parameter and is not in its body. The two cases exclude
  each other, since no entry point stores \<^verbatim>\<open>MUMBLE_EC_API_REQUEST_TIMEOUT\<close>: once the
  wrapper has returned the time-out, the entry point never has any effect.
\<close>

theorem wrapper_delivers_once:
  assumes "exec call main_thread schedule (initial t g) = Some \<sigma>"
  shows "\<not> future_error (sys_promise \<sigma>) \<and>
     (\<forall>v. wpc \<sigma> = W_returned v \<longrightarrow>
        m_promise (sys_promise \<sigma>) = Some v \<and>
        ((sys_host \<sigma> = o_host (dispatch call make_promise g)
          \<and> sys_out \<sigma> = o_out (dispatch call make_promise g)
          \<and> m_promise (o_promise (dispatch call make_promise g)) = Some v
          \<and> dpc \<sigma> \<in> {D_exit, D_returned})
         \<or> (v = MUMBLE_EC_API_REQUEST_TIMEOUT \<and> isCancelled (sys_promise \<sigma>)
            \<and> sys_host \<sigma> = g \<and> sys_out \<sigma> = [] \<and> dpc \<sigma> \<noteq> D_body
            \<and> wait_started \<sigma> + 800 \<le> sys_now \<sigma>))) \<and>
     m_promise (o_promise (dispatch call make_promise g)) \<noteq> Some MUMBLE_EC_API_REQUEST_TIMEOUT"
proof -
  note real = fresh_result_facts(4) [of call g]
  from inv_exec [OF inv_initial assms]
  have phase: "pending g \<sigma> \<or> completed call g \<sigma> \<or> timed_out g \<sigma>"
    by (simp add: wrapper_inv_def)
  then show ?thesis
  proof (elim disjE)
    assume "pending g \<sigma>"
    with real show ?thesis
      by (cases "wpc \<sigma>") (simp_all add: pending_def)
  next
    assume "completed call g \<sigma>"
    with real show ?thesis
      by (cases "wpc \<sigma>") (simp_all add: completed_def Let_def)
  next
    assume "timed_out g \<sigma>"
    with real show ?thesis
      by (cases "wpc \<sigma>"; cases "dpc \<sigma>") (simp_all add: timed_out_def)
  qed
qed

section \<open>The noise-suppression setting and the instances\<close>

text \<open>The theorems above at concrete calls on the example state.\<close>

lemmas example_defs =
  example_host_def example_settings_def example_host_lent_def make_promise_def
  isCancelled_def cancel_def set_value_def pluginExists_def getPlugin_def
  connection_verified_def ClientUser_get_def Channel_get_def EXIT_WITH_def RETURN_def
  export_string_def export_ids_def malloc_def strcpy_def store_ids_def entries_insert_def
  entries_erase_def free_def block_bytes_def c_str_def Let_def

theorem cancelled_call_is_abandoned_witness:
  "isCancelled (cancel make_promise) \<and>
   dispatch (Call_requestLocalUserMute 3 True) (cancel make_promise) example_host =
     \<lparr>o_promise = cancel make_promise, o_host = example_host, o_out = []\<rparr>"
  using cancelled_call_is_abandoned
    [of "cancel make_promise" "Call_requestLocalUserMute 3 True" example_host]
  by (simp add: isCancelled_def cancel_def)

text \<open>
  C1 as stated fails for \<^verbatim>\<open>freeMemory\<close>: called with the id 9, which is not a loaded
  plugin, on the pointer that plugin 3 was lent, it stores \<^verbatim>\<open>MUMBLE_STATUS_OK\<close>.
\<close>

theorem freeMemory_unknown_plugin_counterexample:
  "\<not> pluginExists example_host_lent 9 \<and>
   m_entries (m_curator example_host_lent) 4096 \<noteq> None \<and>
   o_promise (dispatch (Call_freeMemory 9 4096) make_promise example_host_lent) =
     set_value MUMBLE_STATUS_OK make_promise \<and>
   set_value MUMBLE_STATUS_OK make_promise \<noteq> set_value MUMBLE_EC_INVALID_PLUGIN_ID make_promise"
  by (simp add: example_defs freeMemory_v_1_0_x_def getUserName_v_1_0_x_def)

theorem unknown_plugin_rejected_first_witness:
  "\<not> is_freeMemory (Call_getUserName 9 55 42) \<and> \<not> isCancelled make_promise \<and>
   \<not> pluginExists example_host (callerID_of (Call_getUserName 9 55 42)) \<and>
   \<not> connection_verified example_host 55 \<and>
   dispatch (Call_getUserName 9 55 42) make_promise example_host =
     \<lparr>o_promise = set_value MUMBLE_EC_INVALID_PLUGIN_ID make_promise, o_host = example_host,
      o_out = []\<rparr>"
  using unknown_plugin_rejected_first [of "Call_getUserName 9 55 42" make_promise example_host]
  by (simp add: is_freeMemory_def isCancelled_def make_promise_def pluginExists_def
        connection_verified_def example_host_def)

theorem freeMemory_ignores_callerID_witness:
  "\<not> isCancelled make_promise \<and> \<not> pluginExists example_host_lent 9 \<and>
   4096 \<in> dom (m_entries (m_curator example_host_lent)) \<and>
   freeMemory_v_1_0_x 9 4096 make_promise example_host_lent =
     freeMemory_v_1_0_x 3 4096 make_promise example_host_lent \<and>
   o_promise (freeMemory_v_1_0_x 9 4096 make_promise example_host_lent) =
     set_value MUMBLE_STATUS_OK make_promise"
  using freeMemory_ignores_callerID [of 9 4096 make_promise example_host_lent 3]
  by (simp add: example_defs getUserName_v_1_0_x_def freeMemory_v_1_0_x_def dom_def)

theorem settings_access_type_checked_witness:
  "settings_accessor (Call_getMumbleSetting_int 3 MUMBLE_SK_AUDIO_INPUT_VAD_SILENCE_THRESHOLD) =
     Some (QMetaType_Int, MUMBLE_SK_AUDIO_INPUT_VAD_SILENCE_THRESHOLD) \<and>
   \<not> isCancelled make_promise \<and> pluginExists example_host 3 \<and>
   getMumbleSettingHelper MUMBLE_SK_AUDIO_INPUT_VAD_SILENCE_THRESHOLD example_host =
     QVariant_Double (1 / 4) \<and>
   dispatch (Call_getMumbleSetting_int 3 MUMBLE_SK_AUDIO_INPUT_VAD_SILENCE_THRESHOLD)
     make_promise example_host =
     \<lparr>o_promise = set_value MUMBLE_EC_WRONG_SETTINGS_TYPE make_promise, o_host = example_host,
      o_out = []\<rparr>"
  using settings_access_type_checked
    [of "Call_getMumbleSetting_int 3 MUMBLE_SK_AUDIO_INPUT_VAD_SILENCE_THRESHOLD"
        QMetaType_Int MUMBLE_SK_AUDIO_INPUT_VAD_SILENCE_THRESHOLD make_promise example_host 0]
  by (simp add: settings_accessor_def isCancelled_def make_promise_def pluginExists_def
        example_host_def example_settings_def getMumbleSettingHelper_def isValid_def)


theorem returned_pointer_freed_once_witness:
  "Out_pointer 4096 \<in> set (o_out (dispatch (Call_getUserName 3 1 42) make_promise example_host)) \<and>
   \<not> isCancelled make_promise \<and>
   heap (o_host (dispatch (Call_getUserName 3 1 42) make_promise example_host)) 4096 =
     Some (string_block ''Alice'') \<and>
   o_promise (freeMemory_v_1_0_x 3 4096 make_promise
      (o_host (dispatch (Call_getUserName 3 1 42) make_promise example_host))) =
     set_value MUMBLE_STATUS_OK make_promise \<and>
   heap (o_host (freeMemory_v_1_0_x 3 4096 make_promise
      (o_host (dispatch (Call_getUserName 3 1 42) make_promise example_host)))) 4096 = None \<and>
   m_entries (m_curator (o_host (freeMemory_v_1_0_x 3 4096 make_promise
      (o_host (dispatch (Call_getUserName 3 1 42) make_promise example_host))))) 4096 = None \<and>
   o_promise (freeMemory_v_1_0_x 3 4096 make_promise
      (o_host (freeMemory_v_1_0_x 3 4096 make_promise
         (o_host (dispatch (Call_getUserName 3 1 42) make_promise example_host))))) =
     set_value MUMBLE_EC_POINTER_NOT_FOUND make_promise"
  using returned_pointer_freed_once
    [of 4096 "Call_getUserName 3 1 42" make_promise example_host make_promise make_promise
        3 3 example_host 5000]
  by (simp add: example_defs getUserName_v_1_0_x_def freeMemory_v_1_0_x_def string_block_def)

theorem unsynchronized_blob_is_an_error_witness:
  "\<not> isCancelled make_promise \<and> pluginExists example_host 3 \<and>
   connection_verified example_host 1 \<and> uiSession example_host \<noteq> 0 \<and>
   map_option qsComment (ClientUser_get example_host 42) = Some [] \<and>
   map_option qbaCommentHash (ClientUser_get example_host 42) = Some ''c0ffee'' \<and>
   db_blob example_host ''c0ffee'' = [] \<and>
   getUserComment_v_1_0_x 3 1 42 make_promise example_host =
     \<lparr>o_promise = set_value MUMBLE_EC_UNSYNCHRONIZED_BLOB make_promise, o_host = example_host,
      o_out = []\<rparr> \<and>
   map_option qsDesc (Channel_get example_host 0) = Some [] \<and>
   map_option qbaDescHash (Channel_get example_host 0) = Some ''d0'' \<and>
   db_blob example_host ''d0'' = [] \<and>
   getChannelDescription_v_1_0_x 3 1 0 make_promise example_host =
     \<lparr>o_promise = set_value MUMBLE_EC_UNSYNCHRONIZED_BLOB make_promise, o_host = example_host,
      o_out = []\<rparr>"
  using unsynchronized_blob_is_an_error
    [of make_promise example_host 3 1 42 "the (ClientUser_get example_host 42)"
        0 "the (Channel_get example_host 0)"]
  by (simp add: isCancelled_def make_promise_def pluginExists_def connection_verified_def
        ClientUser_get_def Channel_get_def example_host_def)

theorem read_only_call_repeatable_witness:
  "read_only (Call_getUserName 3 1 42) \<and> \<not> isCancelled make_promise \<and>
   m_promise make_promise = None \<and>
   m_promise (o_promise (dispatch (Call_getUserName 3 1 42) make_promise example_host)) =
     Some MUMBLE_STATUS_OK \<and>
   same_backing example_host_lent
     (o_host (dispatch (Call_getUserName 3 1 42) make_promise example_host)) \<and>
   o_out (dispatch (Call_getUserName 3 1 42) make_promise example_host) = [Out_pointer 4096] \<and>
   o_out (dispatch (Call_getUserName 3 1 42) make_promise example_host_lent) =
     [Out_pointer 4160] \<and>
   m_promise (o_promise (dispatch (Call_getUserName 3 1 42) make_promise example_host_lent)) =
     Some MUMBLE_STATUS_OK \<and>
   output_of (dispatch (Call_getUserName 3 1 42) make_promise example_host_lent) =
     [Inl (Some (string_block ''Alice''))] \<and>
   output_of (dispatch (Call_getUserName 3 1 42) make_promise example_host) =
     [Inl (Some (string_block ''Alice''))]"
  using read_only_call_repeatable
    [of "Call_getUserName 3 1 42" make_promise make_promise example_host example_host_lent]
  by (simp add: example_defs getUserName_v_1_0_x_def read_only_def same_backing_def
        output_of_def string_block_def)

text \<open>
  C9. After \<^verbatim>\<open>Settings::load\<close> the Speex noise-cancel strength is the smaller of what
  the two \<^verbatim>\<open>SAVELOAD\<close> statements read: the value under \<^verbatim>\<open>audio/noisesupress\<close>, which
  is 0 when nothing is stored there, and the value under
  \<^verbatim>\<open>audio/speexNoiseCancelStrength\<close>. When both keys hold an \<^verbatim>\<open>int\<close> it is the
  smaller of the two.
\<close>

theorem noise_cancel_strength_is_minimum:
  "load_iSpeexNoiseCancelStrength macos convert settings_ptr current =
     min (SAVELOAD macos convert settings_ptr 0 ''audio/noisesupress'')
         (SAVELOAD macos convert settings_ptr current ''audio/speexNoiseCancelStrength'') \<and>
   (settings_ptr ''audio/noisesupress'' = None \<longrightarrow>
      SAVELOAD macos convert settings_ptr 0 ''audio/noisesupress'' = 0) \<and>
   (settings_ptr ''audio/noisesupress'' = Some (QVariant_Int a) \<and>
    settings_ptr ''audio/speexNoiseCancelStrength'' = Some (QVariant_Int b) \<longrightarrow>
      load_iSpeexNoiseCancelStrength macos convert settings_ptr current = min a b)"
  by (simp add: load_iSpeexNoiseCancelStrength_def SAVELOAD_def settings_value_def
        qvariant_cast_int_def Let_def)

theorem noise_cancel_strength_is_minimum_witness:
  "[''audio/speexNoiseCancelStrength'' \<mapsto> QVariant_Int (- 30)] ''audio/noisesupress'' = None \<and>
   load_iSpeexNoiseCancelStrength False (\<lambda>v. 0)
     [''audio/speexNoiseCancelStrength'' \<mapsto> QVariant_Int (- 30)] 0 = - 30 \<and>
   load_iSpeexNoiseCancelStrength False (\<lambda>v. 0)
     [''audio/noisesupress'' \<mapsto> QVariant_Int (- 20),
      ''audio/speexNoiseCancelStrength'' \<mapsto> QVariant_Int (- 45)] 0 = - 45 \<and>
   load_iSpeexNoiseCancelStrength False (\<lambda>v. 0)
     [''audio/noisesupress'' \<mapsto> QVariant_Int (- 20),
      ''audio/speexNoiseCancelStrength'' \<mapsto> QVariant_Int 0] 0 = - 20"
  using noise_cancel_strength_is_minimum
      [of False "\<lambda>v. 0" "[''audio/speexNoiseCancelStrength'' \<mapsto> QVariant_Int (- 30)]" 0 0 0]
    noise_cancel_strength_is_minimum
      [of False "\<lambda>v. 0" "[''audio/noisesupress'' \<mapsto> QVariant_Int (- 20),
        ''audio/speexNoiseCancelStrength'' \<mapsto> QVariant_Int (- 45)]" 0 "- 20" "- 45"]
    noise_cancel_strength_is_minimum
      [of False "\<lambda>v. 0" "[''audio/noisesupress'' \<mapsto> QVariant_Int (- 20),
        ''audio/speexNoiseCancelStrength'' \<mapsto> QVariant_Int 0]" 0 "- 20" 0]
  by (simp add: SAVELOAD_def settings_value_def qvariant_cast_int_def)

theorem wrapper_delivers_once_witness:
  "exec (Call_getLocalUserID 3 1) False
     [Invoke, Lock, Check_cancelled, Tick 800, Wait_for_800, Run_body, Unlock, Cancel,
      Wait_for_0, Future_get] (initial 0 example_host) =
   Some \<lparr>wpc = W_returned MUMBLE_STATUS_OK, dpc = D_returned,
         sys_promise = \<lparr>m_promise = Some MUMBLE_STATUS_OK, m_cancelled = True,
                        future_error = False\<rparr>,
         m_lock = False, sys_host = example_host, sys_out = [Out_userid 7], sys_now = 800,
         wait_started = 0\<rparr> \<and>
   exec (Call_getLocalUserID 3 1) False
     [Invoke, Tick 800, Wait_for_800, Cancel, Lock, Wait_for_0, Check_cancelled, Set_timeout,
      Unlock, Future_get] (initial 0 example_host) =
   Some \<lparr>wpc = W_returned MUMBLE_EC_API_REQUEST_TIMEOUT, dpc = D_returned,
         sys_promise = \<lparr>m_promise = Some MUMBLE_EC_API_REQUEST_TIMEOUT, m_cancelled = True,
                        future_error = False\<rparr>,
         m_lock = False, sys_host = example_host, sys_out = [], sys_now = 800,
         wait_started = 0\<rparr> \<and>
   o_out (dispatch (Call_getLocalUserID 3 1) make_promise example_host) = [Out_userid 7] \<and>
   m_promise (o_promise (dispatch (Call_getLocalUserID 3 1) make_promise example_host)) =
     Some MUMBLE_STATUS_OK"
  using wrapper_delivers_once
    [of "Call_getLocalUserID 3 1" False
        "[Invoke, Lock, Check_cancelled, Tick 800, Wait_for_800, Run_body, Unlock, Cancel,
          Wait_for_0, Future_get]" 0 example_host
        "\<lparr>wpc = W_returned MUMBLE_STATUS_OK, dpc = D_returned,
         sys_promise = \<lparr>m_promise = Some MUMBLE_STATUS_OK, m_cancelled = True,
                        future_error = False\<rparr>,
         m_lock = False, sys_host = example_host, sys_out = [Out_userid 7], sys_now = 800,
         wait_started = 0\<rparr>"]
  by (simp add: initial_def getLocalUserID_v_1_0_x_def example_defs)

end
